theory Spec2Isabelle
  imports Complex_Main
begin

section \<open>JavaScript numbers\<close>

text \<open>
  The program is JavaScript: every number is an IEEE double. A number is modelled as
  \<open>NaN\<close>, one of the two infinities, or a finite value held as an exact rational.
  Rounding to 53 bits, overflow of a finite result and the sign of zero are not
  modelled; every other rule of the arithmetic operators (what \<open>NaN\<close> and the
  infinities give, division by zero) is written out below.
\<close>

datatype jsnum = NaN | NInf | Num rat | PInf

fun js_neg :: "jsnum \<Rightarrow> jsnum" where
  "js_neg NaN = NaN"
| "js_neg NInf = PInf"
| "js_neg PInf = NInf"
| "js_neg (Num a) = Num (- a)"

fun js_add :: "jsnum \<Rightarrow> jsnum \<Rightarrow> jsnum" where
  "js_add NaN _ = NaN"
| "js_add _ NaN = NaN"
| "js_add PInf NInf = NaN"
| "js_add NInf PInf = NaN"
| "js_add PInf _ = PInf"
| "js_add _ PInf = PInf"
| "js_add NInf _ = NInf"
| "js_add _ NInf = NInf"
| "js_add (Num a) (Num b) = Num (a + b)"

definition js_sub :: "jsnum \<Rightarrow> jsnum \<Rightarrow> jsnum" where
  "js_sub a b = js_add a (js_neg b)"

text \<open>The sign of a number that is not \<open>NaN\<close>: \<open>-1\<close>, \<open>0\<close> or \<open>1\<close>.\<close>

fun js_sign :: "jsnum \<Rightarrow> int" where
  "js_sign NaN = 0"
| "js_sign NInf = - 1"
| "js_sign PInf = 1"
| "js_sign (Num a) = (if a < 0 then - 1 else if a = 0 then 0 else 1)"

definition js_inf :: "int \<Rightarrow> jsnum" where
  "js_inf sg = (if sg < 0 then NInf else PInf)"

fun js_mul :: "jsnum \<Rightarrow> jsnum \<Rightarrow> jsnum" where
  "js_mul NaN _ = NaN"
| "js_mul _ NaN = NaN"
| "js_mul (Num a) (Num b) = Num (a * b)"
| "js_mul a b =
     (if js_sign a = 0 \<or> js_sign b = 0 then NaN else js_inf (js_sign a * js_sign b))"

fun js_div :: "jsnum \<Rightarrow> jsnum \<Rightarrow> jsnum" where
  "js_div NaN _ = NaN"
| "js_div _ NaN = NaN"
| "js_div (Num a) (Num b) =
     (if b = 0 then (if a = 0 then NaN else js_inf (js_sign (Num a))) else Num (a / b))"
| "js_div (Num a) _ = Num 0"
| "js_div a (Num b) = js_inf (js_sign a * (if b < 0 then - 1 else 1))"
| "js_div _ _ = NaN"

text \<open>\<open>a <= b\<close>: false as soon as one side is \<open>NaN\<close>.\<close>

fun js_le :: "jsnum \<Rightarrow> jsnum \<Rightarrow> bool" where
  "js_le NaN _ = False"
| "js_le _ NaN = False"
| "js_le NInf _ = True"
| "js_le _ PInf = True"
| "js_le (Num a) (Num b) = (a \<le> b)"
| "js_le _ _ = False"

definition js_lt :: "jsnum \<Rightarrow> jsnum \<Rightarrow> bool" where
  "js_lt a b = (js_le a b \<and> a \<noteq> b)"

text \<open>\<open>a === b\<close> on numbers: \<open>NaN\<close> equals nothing.\<close>

definition js_eq :: "jsnum \<Rightarrow> jsnum \<Rightarrow> bool" where
  "js_eq a b = (a \<noteq> NaN \<and> b \<noteq> NaN \<and> a = b)"

text \<open>\<open>Math.min\<close>, \<open>Math.max\<close> and \<open>Math.floor\<close>.\<close>

definition Math_min :: "jsnum \<Rightarrow> jsnum \<Rightarrow> jsnum" where
  "Math_min a b = (if a = NaN \<or> b = NaN then NaN else if js_le a b then a else b)"

definition Math_max :: "jsnum \<Rightarrow> jsnum \<Rightarrow> jsnum" where
  "Math_max a b = (if a = NaN \<or> b = NaN then NaN else if js_le a b then b else a)"

fun Math_floor :: "jsnum \<Rightarrow> jsnum" where
  "Math_floor (Num a) = Num (of_int \<lfloor>a\<rfloor>)"
| "Math_floor a = a"

text \<open>A number in a condition (\<open>x || d\<close>, \<open>if (x)\<close>): \<open>0\<close> and \<open>NaN\<close> are false.\<close>

definition truthy :: "jsnum \<Rightarrow> bool" where
  "truthy a = (a \<noteq> NaN \<and> a \<noteq> Num 0)"

definition js_or :: "jsnum \<Rightarrow> jsnum \<Rightarrow> jsnum" where
  "js_or a d = (if truthy a then a else d)"

section \<open>The transform\<close>

text \<open>
  \<open>initializePaper\<close> fixes the canvas size. The same nine lines compute the
  transform in \<open>drawGrid\<close>, \<open>createPolygon\<close> and \<open>updatePolygonPositions\<close>:
  \<^verbatim>\<open>
  var worldWidth = gridColumns * tileSize;
  var worldHeight = gridRows * tileSize;
  var scaleX = canvasWidth / worldWidth;
  var scaleY = canvasHeight / worldHeight;
  var scale = Math.min(scaleX, scaleY);
  var displayWidth = worldWidth * scale;
  var displayHeight = worldHeight * scale;
  var offsetX = (canvasWidth - displayWidth) / 2;
  var offsetY = (canvasHeight - displayHeight) / 2;
  \<close>
\<close>

definition canvasWidth :: jsnum where
  "canvasWidth = Num 900"

definition canvasHeight :: jsnum where
  "canvasHeight = Num 600"

record transform =
  scale :: jsnum
  displayWidth :: jsnum
  displayHeight :: jsnum
  offsetX :: jsnum
  offsetY :: jsnum

definition computeTransform :: "int \<Rightarrow> int \<Rightarrow> jsnum \<Rightarrow> transform" where
  "computeTransform gridColumns gridRows tileSize =
     (let worldWidth = js_mul (Num (of_int gridColumns)) tileSize;
          worldHeight = js_mul (Num (of_int gridRows)) tileSize;
          scaleX = js_div canvasWidth worldWidth;
          scaleY = js_div canvasHeight worldHeight;
          scale = Math_min scaleX scaleY;
          displayWidth = js_mul worldWidth scale;
          displayHeight = js_mul worldHeight scale;
          offsetX = js_div (js_sub canvasWidth displayWidth) (Num 2);
          offsetY = js_div (js_sub canvasHeight displayHeight) (Num 2)
      in \<lparr> scale = scale, displayWidth = displayWidth, displayHeight = displayHeight,
           offsetX = offsetX, offsetY = offsetY \<rparr>)"

section \<open>Strings\<close>

text \<open>
  A string is a list of characters; the input text is taken to be ASCII. The functions
  below are the methods of \<open>String.prototype\<close> that the loaders call.
\<close>

text \<open>White space as \<open>trim\<close>, \<open>parseInt\<close> and \<open>parseFloat\<close> skip it.\<close>

definition isWhiteSpace :: "char \<Rightarrow> bool" where
  "isWhiteSpace c = (of_char c \<in> {9, 10, 11, 12, 13, 32 :: nat})"

definition trim :: "string \<Rightarrow> string" where
  "trim s = rev (dropWhile isWhiteSpace (rev (dropWhile isWhiteSpace s)))"

text \<open>\<open>s.split(sep)\<close> for a separator of one character: never the empty list.\<close>

fun split :: "char \<Rightarrow> string \<Rightarrow> string list" where
  "split sep [] = [[]]"
| "split sep (c # cs) =
     (if c = sep then [] # split sep cs
      else (case split sep cs of [] \<Rightarrow> [[c]] | x # xs \<Rightarrow> (c # x) # xs))"

definition toLowerCase :: "string \<Rightarrow> string" where
  "toLowerCase s =
     map (\<lambda>c. if 65 \<le> (of_char c :: nat) \<and> (of_char c :: nat) \<le> 90
              then char_of (of_char c + 32 :: nat) else c) s"

fun startsWith :: "string \<Rightarrow> string \<Rightarrow> bool" where
  "startsWith s [] = True"
| "startsWith [] (p # ps) = False"
| "startsWith (c # cs) (p # ps) = (c = p \<and> startsWith cs ps)"

fun includesStr :: "string \<Rightarrow> string \<Rightarrow> bool" where
  "includesStr [] sub = (sub = [])"
| "includesStr (c # cs) sub = (startsWith (c # cs) sub \<or> includesStr cs sub)"

section \<open>parseInt and parseFloat\<close>

definition isDigit :: "char \<Rightarrow> bool" where
  "isDigit c = (48 \<le> (of_char c :: nat) \<and> (of_char c :: nat) \<le> 57)"

definition digitsValue :: "string \<Rightarrow> nat" where
  "digitsValue ds = foldl (\<lambda>a c. 10 * a + (of_char c - 48)) 0 ds"

text \<open>The value of a hexadecimal digit, if the character is one.\<close>

definition hexDigit :: "char \<Rightarrow> nat option" where
  "hexDigit c =
     (let n = (of_char c :: nat)
      in if 48 \<le> n \<and> n \<le> 57 then Some (n - 48)
         else if 65 \<le> n \<and> n \<le> 70 then Some (n - 55)
         else if 97 \<le> n \<and> n \<le> 102 then Some (n - 87)
         else None)"

definition hexValue :: "string \<Rightarrow> nat" where
  "hexValue ds = foldl (\<lambda>a c. 16 * a + the (hexDigit c)) 0 ds"

text \<open>An optional sign in front of a string: whether it is \<open>-\<close>, and the rest.\<close>

fun takeSign :: "string \<Rightarrow> bool \<times> string" where
  "takeSign [] = (False, [])"
| "takeSign (c # cs) =
     (if c = CHR ''-'' then (True, cs)
      else if c = CHR ''+'' then (False, cs)
      else (False, c # cs))"

text \<open>
  \<open>parseInt(s)\<close> with no radix: leading white space is skipped, a sign is read, a
  prefix \<open>0x\<close> or \<open>0X\<close> selects radix 16, and the longest run of digits is the value;
  with no digit the result is \<open>NaN\<close>.
\<close>

definition parseInt :: "string \<Rightarrow> jsnum" where
  "parseInt s =
     (let (neg, s1) = takeSign (dropWhile isWhiteSpace s);
          hex = (startsWith s1 ''0x'' \<or> startsWith s1 ''0X'');
          s2 = (if hex then drop 2 s1 else s1);
          z = (if hex then takeWhile (\<lambda>c. hexDigit c \<noteq> None) s2 else takeWhile isDigit s2);
          n = (if hex then hexValue z else digitsValue z)
      in if z = [] then NaN
         else Num (if neg then - of_nat n else of_nat n))"

text \<open>
  An exponent part \<open>e\<close>, \<open>E\<close> followed by an optional sign and digits, in front of a
  string: its value and the rest; \<open>None\<close> when the string does not start with one.
\<close>

definition takeExponent :: "string \<Rightarrow> (int \<times> string) option" where
  "takeExponent s =
     (case s of
        [] \<Rightarrow> None
      | c # cs \<Rightarrow>
          if c = CHR ''e'' \<or> c = CHR ''E'' then
            (let (neg, r) = takeSign cs; ds = takeWhile isDigit r
             in if ds = [] then None
                else Some (if neg then - int (digitsValue ds) else int (digitsValue ds),
                           dropWhile isDigit r))
          else None)"

text \<open>The number written with integer digits \<open>ip\<close>, fraction digits \<open>fp\<close> and exponent \<open>e\<close>.\<close>

definition decimalValue :: "string \<Rightarrow> string \<Rightarrow> int \<Rightarrow> rat" where
  "decimalValue ip fp e =
     (let m = of_nat (digitsValue ip) + of_nat (digitsValue fp) / 10 ^ length fp
      in if 0 \<le> e then m * 10 ^ nat e else m / 10 ^ nat (- e))"

text \<open>
  \<open>parseFloat(s)\<close>: leading white space is skipped and the longest prefix that is a
  decimal literal (or \<open>Infinity\<close>) is the value; with no such prefix the result is \<open>NaN\<close>.
\<close>

definition parseFloat :: "string \<Rightarrow> jsnum" where
  "parseFloat s =
     (let (neg, s1) = takeSign (dropWhile isWhiteSpace s)
      in if startsWith s1 ''Infinity'' then (if neg then NInf else PInf)
         else
           (let ip = takeWhile isDigit s1;
                r = dropWhile isDigit s1;
                dot = startsWith r ''.'';
                fp = (if dot then takeWhile isDigit (tl r) else []);
                r2 = (if dot then dropWhile isDigit (tl r) else r);
                e = (case takeExponent r2 of None \<Rightarrow> 0 | Some (x, _) \<Rightarrow> x)
            in if ip = [] \<and> fp = [] then NaN
               else Num (if neg then - decimalValue ip fp e else decimalValue ip fp e)))"

section \<open>Values and JSON.parse\<close>

text \<open>
  The values a coordinate field can parse to. The loaders delete every double quote
  from the field before they call \<open>JSON.parse\<close>, so the text holds no string literal
  and hence no object member: the only object it can denote is \<open>{}\<close>.
\<close>

datatype jsval = Null | Bool bool | Number jsnum | Arr "jsval list" | Obj

datatype error = SyntaxError | TypeError

datatype token = TLBracket | TRBracket | TComma | TLit jsval

definition isJsonSpace :: "char \<Rightarrow> bool" where
  "isJsonSpace c = (of_char c \<in> {9, 10, 13, 32 :: nat})"

text \<open>
  A JSON number in front of a string: an optional \<open>-\<close>, an integer part with no
  leading zero, an optional fraction and an optional exponent, each with a digit.
\<close>

definition lexNumber :: "string \<Rightarrow> (rat \<times> string) option" where
  "lexNumber s =
     (let neg = startsWith s ''-'';
          s1 = (if neg then tl s else s);
          ip = takeWhile isDigit s1;
          r = dropWhile isDigit s1;
          dot = startsWith r ''.'';
          fp = (if dot then takeWhile isDigit (tl r) else []);
          r2 = (if dot then dropWhile isDigit (tl r) else r);
          ex = (startsWith r2 ''e'' \<or> startsWith r2 ''E'')
      in if ip = [] \<or> (1 < length ip \<and> hd ip = CHR ''0'') \<or> (dot \<and> fp = []) then None
         else if ex then
           (case takeExponent r2 of
              None \<Rightarrow> None
            | Some (e, r3) \<Rightarrow>
                Some (if neg then - decimalValue ip fp e else decimalValue ip fp e, r3))
         else Some (if neg then - decimalValue ip fp 0 else decimalValue ip fp 0, r2))"

lemma takeSign_length:
  "takeSign s = (b, r) \<Longrightarrow> length r \<le> length s"
  by (cases s) (auto split: if_splits)

lemma takeExponent_shorter:
  assumes "takeExponent s = Some (e, r)"
  shows "length r < length s"
proof (cases s)
  case Nil
  with assms show ?thesis by (simp add: takeExponent_def)
next
  case (Cons c cs)
  obtain b r1 where sg: "takeSign cs = (b, r1)" by (cases "takeSign cs")
  from assms Cons sg have "r = dropWhile isDigit r1"
    by (auto simp: takeExponent_def Let_def split: if_splits)
  moreover have "length (dropWhile isDigit r1) \<le> length r1"
    by (rule length_dropWhile_le)
  moreover have "length r1 \<le> length cs"
    using sg by (rule takeSign_length)
  ultimately show ?thesis using Cons by simp
qed

lemma dropWhile_shorter:
  "takeWhile P xs \<noteq> [] \<Longrightarrow> length (dropWhile P xs) < length xs"
  by (cases xs) (auto simp: less_Suc_eq_le length_dropWhile_le split: if_splits)

lemma lexNumber_shorter:
  assumes "lexNumber s = Some (v, r)"
  shows "length r < length s"
proof -
  define s1 where "s1 = (if startsWith s ''-'' then tl s else s)"
  define r1 where "r1 = dropWhile isDigit s1"
  define r2 where
    "r2 = (if startsWith r1 ''.'' then dropWhile isDigit (tl r1) else r1)"
  have ip: "takeWhile isDigit s1 \<noteq> []"
    using assms by (auto simp: lexNumber_def Let_def s1_def split: if_splits)
  have "length s1 \<le> length s"
    by (simp add: s1_def)
  moreover have "length r1 < length s1"
    unfolding r1_def using ip by (rule dropWhile_shorter)
  moreover have "length r2 \<le> length r1"
  proof (cases "startsWith r1 ''.''")
    case True
    have "length (dropWhile isDigit (tl r1)) \<le> length (tl r1)"
      by (rule length_dropWhile_le)
    with True show ?thesis by (simp add: r2_def)
  next
    case False
    then show ?thesis by (simp add: r2_def)
  qed
  moreover have "length r \<le> length r2"
  proof (cases "startsWith r2 ''e'' \<or> startsWith r2 ''E''")
    case True
    with assms obtain e where "takeExponent r2 = Some (e, r)"
      by (auto simp: lexNumber_def Let_def s1_def r1_def r2_def
          split: if_splits option.splits)
    then show ?thesis using takeExponent_shorter by fastforce
  next
    case False
    with assms have "r = r2"
      by (auto simp: lexNumber_def Let_def s1_def r1_def r2_def split: if_splits)
    then show ?thesis by simp
  qed
  ultimately show ?thesis by simp
qed

function lexJSON :: "string \<Rightarrow> token list option" where
  "lexJSON [] = Some []"
| "lexJSON (c # cs) =
     (if isJsonSpace c then lexJSON cs
      else if c = CHR ''['' then map_option (Cons TLBracket) (lexJSON cs)
      else if c = CHR '']'' then map_option (Cons TRBracket) (lexJSON cs)
      else if c = CHR '','' then map_option (Cons TComma) (lexJSON cs)
      else if c = CHR ''{'' then
        (case dropWhile isJsonSpace cs of
           [] \<Rightarrow> None
         | d # ds \<Rightarrow> if d = CHR ''}'' then map_option (Cons (TLit Obj)) (lexJSON ds) else None)
      else if startsWith (c # cs) ''null'' then map_option (Cons (TLit Null)) (lexJSON (drop 3 cs))
      else if startsWith (c # cs) ''true'' then
        map_option (Cons (TLit (Bool True))) (lexJSON (drop 3 cs))
      else if startsWith (c # cs) ''false'' then
        map_option (Cons (TLit (Bool False))) (lexJSON (drop 4 cs))
      else
        (case lexNumber (c # cs) of
           None \<Rightarrow> None
         | Some (v, r) \<Rightarrow> map_option (Cons (TLit (Number (Num v)))) (lexJSON r)))"
  by pat_completeness auto
termination
proof (relation "measure length")
  fix c x21 :: char and cs x22 :: string
  assume "dropWhile isJsonSpace cs = x21 # x22"
  then have "length (x21 # x22) \<le> length cs"
    by (metis length_dropWhile_le)
  then show "(x22, c # cs) \<in> measure length" by simp
next
  fix c :: char and cs :: string and x2 :: "rat \<times> string" and x y
  assume "lexNumber (c # cs) = Some x2" and "(x, y) = x2"
  then show "(y, c # cs) \<in> measure length"
    using lexNumber_shorter [of "c # cs" x y] by simp
qed auto

text \<open>
  The parser keeps the arrays that are still open on a stack, the innermost first and
  each with its elements in reverse, and what may come next.
\<close>

datatype expect = WantValue | WantValueOrClose | WantCommaOrClose

fun parseTokens :: "expect \<Rightarrow> jsval list list \<Rightarrow> token list \<Rightarrow> jsval option" where
  "parseTokens m st [] = None"
| "parseTokens m st (TLit v # ts) =
     (if m = WantCommaOrClose then None
      else (case st of
              [] \<Rightarrow> if ts = [] then Some v else None
            | a # st' \<Rightarrow> parseTokens WantCommaOrClose ((v # a) # st') ts))"
| "parseTokens m st (TLBracket # ts) =
     (if m = WantCommaOrClose then None else parseTokens WantValueOrClose ([] # st) ts)"
| "parseTokens m st (TRBracket # ts) =
     (if m = WantValue then None
      else (case st of
              [] \<Rightarrow> None
            | a # [] \<Rightarrow> if ts = [] then Some (Arr (rev a)) else None
            | a # b # st' \<Rightarrow> parseTokens WantCommaOrClose ((Arr (rev a) # b) # st') ts))"
| "parseTokens m st (TComma # ts) =
     (if m = WantCommaOrClose \<and> st \<noteq> [] then parseTokens WantValue st ts else None)"

text \<open>\<open>JSON.parse(text)\<close> on a text with no double quote: the value, or the SyntaxError.\<close>

definition JSON_parse :: "string \<Rightarrow> error + jsval" where
  "JSON_parse text =
     (case lexJSON text of
        None \<Rightarrow> Inl SyntaxError
      | Some ts \<Rightarrow> (case parseTokens WantValue [] ts of
                     None \<Rightarrow> Inl SyntaxError
                   | Some v \<Rightarrow> Inr v))"

text \<open>
  \<open>v[i]\<close>: reading a property of \<open>null\<close> throws a TypeError; an index with no element,
  and any index of a number, a boolean or \<open>{}\<close>, gives \<open>undefined\<close> (\<open>None\<close>).
\<close>

fun getIndex :: "jsval \<Rightarrow> nat \<Rightarrow> error + jsval option" where
  "getIndex Null i = Inl TypeError"
| "getIndex (Arr xs) i = Inr (if i < length xs then Some (xs ! i) else None)"
| "getIndex v i = Inr None"

text \<open>The same when the value read from may itself be \<open>undefined\<close>.\<close>

fun getIndexU :: "jsval option \<Rightarrow> nat \<Rightarrow> error + jsval option" where
  "getIndexU None i = Inl TypeError"
| "getIndexU (Some v) i = getIndex v i"

text \<open>\<open>v.length\<close>: a TypeError on \<open>null\<close>, \<open>undefined\<close> on anything but an array.\<close>

fun getLength :: "jsval \<Rightarrow> error + nat option" where
  "getLength Null = Inl TypeError"
| "getLength (Arr xs) = Inr (Some (length xs))"
| "getLength v = Inr None"

text \<open>
  The number a value stands for in a product. An array is first joined to a string:
  the empty array gives \<open>0\<close>, an array of one element the number of that element's
  string (empty for \<open>null\<close>), and a longer array has a comma in its string, so \<open>NaN\<close>.
\<close>

fun toNumber :: "jsval \<Rightarrow> jsnum" where
  "toNumber Null = Num 0"
| "toNumber (Bool b) = Num (if b then 1 else 0)"
| "toNumber (Number n) = n"
| "toNumber Obj = NaN"
| "toNumber (Arr []) = Num 0"
| "toNumber (Arr [Null]) = Num 0"
| "toNumber (Arr [Number n]) = n"
| "toNumber (Arr [Arr ys]) = toNumber (Arr ys)"
| "toNumber (Arr xs) = NaN"

fun toNumberU :: "jsval option \<Rightarrow> jsnum" where
  "toNumberU None = NaN"
| "toNumberU (Some v) = toNumber v"

section \<open>The canvas state\<close>

type_synonym point = "jsnum \<times> jsnum"

datatype color = RGB jsnum jsnum jsnum | RGBA jsnum jsnum jsnum jsnum | CSS string

text \<open>A polygon's path: the world vertices it was created from and what is drawn.\<close>

record path =
  originalCoords :: "jsval list"
  segments :: "point list"
  closed :: bool
  fillColor :: "color option"
  strokeColor :: "color option"
  strokeWidth :: jsnum

record gridLine =
  lineFrom :: point
  lineTo :: point
  lineColor :: color
  lineWidth :: jsnum

record rectangle =
  rectPoint :: point
  rectSize :: point
  rectFill :: color

text \<open>The methods of \<open>window.paperFunctions\<close>, as entries of a log of what was called.\<close>

datatype call = DrawGrid jsnum | UpdatePolygonPositions | ClearPolygons | CreatePolygon

text \<open>
  The variables of \<open>initializePaper\<close>, the value of the tile size input, and the zoom
  and the center of \<open>paper.view\<close>. The last field is no variable of the program: it
  records, in their order, the calls of the four methods of \<open>paperFunctions\<close> that
  draw, so that the order of the calls can be stated.

  The scene of the drawing surface (which items it holds, and which is painted over
  which) is not modelled beyond these variables: \<open>bringToFront\<close>, \<open>sendToBack\<close> and
  \<open>paper.view.update\<close> leave this state as it is, and a path is in this state once it
  is pushed on \<open>polygonPaths\<close>.
\<close>

record state =
  polygonPaths :: "path list"
  gridLines :: "gridLine list"
  gridBackground :: "rectangle option"
  gridColumns :: int
  gridRows :: int
  tileSizeInput :: string
  viewZoom :: jsnum
  viewCenter :: point
  calls :: "call list"

text \<open>\<open>parseInt(document.getElementById('tileSizeInput').value) || 300\<close>\<close>

definition readTileSize :: "state \<Rightarrow> jsnum" where
  "readTileSize s = js_or (parseInt (tileSizeInput s)) (Num 300)"

section \<open>paperFunctions\<close>

text \<open>
  The loop that projects world vertices and adds them to a path. A vertex that is
  \<open>null\<close> throws; the segments added before it stay.
\<close>

fun projectCoords :: "transform \<Rightarrow> jsval list \<Rightarrow> point list \<Rightarrow> error option \<times> point list" where
  "projectCoords tr [] segs = (None, segs)"
| "projectCoords tr (v # vs) segs =
     (case getIndex v 0 of
        Inl e \<Rightarrow> (Some e, segs)
      | Inr worldX \<Rightarrow>
          (case getIndex v 1 of
             Inl e \<Rightarrow> (Some e, segs)
           | Inr worldY \<Rightarrow>
               (let screenX = js_add (offsetX tr) (js_mul (toNumberU worldX) (scale tr));
                    screenY = js_add (offsetY tr) (js_mul (toNumberU worldY) (scale tr))
                in projectCoords tr vs (segs @ [(screenX, screenY)]))))"

text \<open>
  One round of the loop of \<open>updatePolygonPositions\<close>: the style is read, the segments
  are removed and added again from \<open>originalCoords\<close>, the style is written back. The
  guard \<open>if (path.originalCoords)\<close> holds of every path: \<open>createPolygon\<close> sets the
  property to an array, and an array is true in a condition.
\<close>

definition updatePath :: "transform \<Rightarrow> path \<Rightarrow> error option \<times> path" where
  "updatePath tr p =
     (let fillColor0 = fillColor p;
          strokeColor0 = strokeColor p;
          strokeWidth0 = strokeWidth p;
          closed0 = closed p;
          p1 = p\<lparr>segments := []\<rparr>;
          (err, segs) = projectCoords tr (originalCoords p1) (segments p1);
          p2 = p1\<lparr>segments := segs\<rparr>
      in case err of
           Some e \<Rightarrow> (Some e, p2)
         | None \<Rightarrow>
             (let p3 = p2\<lparr>closed := closed0\<rparr>;
                  p4 = (case fillColor0 of None \<Rightarrow> p3 | Some c \<Rightarrow> p3\<lparr>fillColor := Some c\<rparr>);
                  p5 = (case strokeColor0 of None \<Rightarrow> p4 | Some c \<Rightarrow> p4\<lparr>strokeColor := Some c\<rparr>);
                  p6 = (if truthy strokeWidth0 then p5\<lparr>strokeWidth := strokeWidth0\<rparr> else p5)
              in (None, p6)))"

text \<open>The loop over \<open>polygonPaths\<close>: an exception leaves the later paths as they were.\<close>

fun updatePaths :: "transform \<Rightarrow> path list \<Rightarrow> error option \<times> path list" where
  "updatePaths tr [] = (None, [])"
| "updatePaths tr (p # ps) =
     (case updatePath tr p of
        (Some e, p') \<Rightarrow> (Some e, p' # ps)
      | (None, p') \<Rightarrow> (case updatePaths tr ps of (err, ps') \<Rightarrow> (err, p' # ps')))"

definition updatePolygonPositions :: "state \<Rightarrow> error option \<times> state" where
  "updatePolygonPositions s =
     (let tileSize = readTileSize s;
          tr = computeTransform (gridColumns s) (gridRows s) tileSize;
          (err, ps) = updatePaths tr (polygonPaths s)
      in (err, s\<lparr>polygonPaths := ps, calls := calls s @ [UpdatePolygonPositions]\<rparr>))"

definition clearPolygons :: "state \<Rightarrow> state" where
  "clearPolygons s = s\<lparr>polygonPaths := [], calls := calls s @ [ClearPolygons]\<rparr>"

text \<open>
  The second \<open>console.log\<close> of \<open>createPolygon\<close> reads \<open>coords[0]\<close>, \<open>coords[0][0]\<close> and
  \<open>coords[0][1]\<close>: it throws when \<open>coords\<close> is \<open>null\<close> or has no first element.
\<close>

definition logFirstCoordinate :: "jsval \<Rightarrow> error option" where
  "logFirstCoordinate coords =
     (case getIndex coords 0 of
        Inl e \<Rightarrow> Some e
      | Inr first \<Rightarrow>
          (case getIndexU first 0 of
             Inl e \<Rightarrow> Some e
           | Inr _ \<Rightarrow> (case getIndexU first 1 of Inl e \<Rightarrow> Some e | Inr _ \<Rightarrow> None)))"

text \<open>
  \<open>createPolygon\<close> catches every exception and returns \<open>false\<close>; the path is pushed
  on \<open>polygonPaths\<close> last, so a failed call leaves the variables as they were (the
  path it had made stays on the drawing surface, which is outside this state).
  \<open>coords.slice()\<close> throws when \<open>coords\<close> is not an array.
\<close>

definition createPolygon :: "jsval \<Rightarrow> jsnum \<Rightarrow> jsnum \<Rightarrow> jsnum \<Rightarrow> state \<Rightarrow> bool \<times> state" where
  "createPolygon coords r g b s =
     (let tileSize = readTileSize s;
          tr = computeTransform (gridColumns s) (gridRows s) tileSize;
          s1 = s\<lparr>calls := calls s @ [CreatePolygon]\<rparr>
      in case logFirstCoordinate coords of
           Some e \<Rightarrow> (False, s1)
         | None \<Rightarrow>
             (case coords of
                Arr xs \<Rightarrow>
                  (case projectCoords tr xs [] of
                     (Some e, segs) \<Rightarrow> (False, s1)
                   | (None, segs) \<Rightarrow>
                       (True, s1\<lparr>polygonPaths := polygonPaths s1 @
                          [\<lparr> originalCoords = xs, segments = segs, closed = True,
                             fillColor = Some (RGB (js_div r (Num 255)) (js_div g (Num 255))
                                                   (js_div b (Num 255))),
                             strokeColor = Some (RGBA (Num 0) (Num 0) (Num 0) (Num (1 / 2))),
                             strokeWidth = Num 1 \<rparr>]\<rparr>))
              | _ \<Rightarrow> (False, s1)))"

definition gridLineColor :: color where
  "gridLineColor = RGBA (Num (7 / 10)) (Num (7 / 10)) (Num (7 / 10)) (Num (8 / 10))"

definition drawGrid :: "jsnum \<Rightarrow> state \<Rightarrow> state" where
  "drawGrid tileSize s =
     (let tr = computeTransform (gridColumns s) (gridRows s) tileSize;
          background = \<lparr> rectPoint = (offsetX tr, offsetY tr),
                         rectSize = (displayWidth tr, displayHeight tr),
                         rectFill = CSS ''#404040'' \<rparr>;
          visualTileWidth = js_div (displayWidth tr) (Num (of_int (gridColumns s)));
          visualTileHeight = js_div (displayHeight tr) (Num (of_int (gridRows s)));
          vertical = map (\<lambda>col.
                       (let x = js_add (offsetX tr) (js_mul (Num (of_int col)) visualTileWidth)
                        in \<lparr> lineFrom = (x, offsetY tr),
                             lineTo = (x, js_add (offsetY tr) (displayHeight tr)),
                             lineColor = gridLineColor, lineWidth = Num 1 \<rparr>))
                     [0 .. gridColumns s];
          horizontal = map (\<lambda>row.
                       (let y = js_add (offsetY tr) (js_mul (Num (of_int row)) visualTileHeight)
                        in \<lparr> lineFrom = (offsetX tr, y),
                             lineTo = (js_add (offsetX tr) (displayWidth tr), y),
                             lineColor = gridLineColor, lineWidth = Num 1 \<rparr>))
                     [0 .. gridRows s]
      in s\<lparr>gridLines := vertical @ horizontal, gridBackground := Some background,
           calls := calls s @ [DrawGrid tileSize]\<rparr>)"

definition addColumn :: "state \<Rightarrow> error option \<times> state" where
  "addColumn s =
     (let s1 = s\<lparr>gridColumns := gridColumns s + 1\<rparr>;
          tileSize = readTileSize s1;
          s2 = drawGrid tileSize s1
      in updatePolygonPositions s2)"

definition removeColumn :: "state \<Rightarrow> error option \<times> state" where
  "removeColumn s =
     (if gridColumns s > 1 then
        (let s1 = s\<lparr>gridColumns := gridColumns s - 1\<rparr>;
             tileSize = readTileSize s1;
             s2 = drawGrid tileSize s1
         in updatePolygonPositions s2)
      else (None, s))"

definition addRow :: "state \<Rightarrow> error option \<times> state" where
  "addRow s =
     (let s1 = s\<lparr>gridRows := gridRows s + 1\<rparr>;
          tileSize = readTileSize s1;
          s2 = drawGrid tileSize s1
      in updatePolygonPositions s2)"

definition removeRow :: "state \<Rightarrow> error option \<times> state" where
  "removeRow s =
     (if gridRows s > 1 then
        (let s1 = s\<lparr>gridRows := gridRows s - 1\<rparr>;
             tileSize = readTileSize s1;
             s2 = drawGrid tileSize s1
         in updatePolygonPositions s2)
      else (None, s))"

text \<open>\<open>updateGrid\<close>, the handler of the tile size input.\<close>

definition updateGrid :: "state \<Rightarrow> state" where
  "updateGrid s = drawGrid (readTileSize s) s"

text \<open>
  \<open>initializePaper\<close>: the variables' first values, the view centered at zoom 1, and
  the first grid. The size of the view and the text of the tile size input come from
  the page.
\<close>

definition initializePaper :: "point \<Rightarrow> string \<Rightarrow> state" where
  "initializePaper viewSize tileInput =
     drawGrid (Num 300)
       \<lparr> polygonPaths = [], gridLines = [], gridBackground = None,
         gridColumns = 10, gridRows = 7, tileSizeInput = tileInput,
         viewZoom = Num 1,
         viewCenter = (js_div (fst viewSize) (Num 2), js_div (snd viewSize) (Num 2)),
         calls = [] \<rparr>"

section \<open>Zoom and pan\<close>

record wheelEvent =
  wheelDelta :: jsnum
  wheelPoint :: point

definition subtract :: "point \<Rightarrow> point \<Rightarrow> point" where
  "subtract p q = (js_sub (fst p) (fst q), js_sub (snd p) (snd q))"

definition multiply :: "point \<Rightarrow> jsnum \<Rightarrow> point" where
  "multiply p k = (js_mul (fst p) k, js_mul (snd p) k)"

text \<open>
  \<open>paper.view.onMouseWheel\<close>. \<open>viewToProject\<close> is the drawing surface's: it maps a
  point of the view to a point of the project, from the view's zoom and center.
\<close>

definition onMouseWheel :: "(state \<Rightarrow> point \<Rightarrow> point) \<Rightarrow> wheelEvent \<Rightarrow> state \<Rightarrow> state" where
  "onMouseWheel viewToProject event s =
     (let oldZoom = viewZoom s;
          newZoom = (if js_lt (wheelDelta event) (Num 0)
                     then js_mul oldZoom (Num (105 / 100))
                     else js_mul oldZoom (Num (95 / 100)));
          newZoom = Math_max (Num (5 / 100)) (Math_min (Num 20) newZoom);
          beta = js_div oldZoom newZoom;
          mousePosition = viewToProject s (wheelPoint event);
          offset = subtract mousePosition (viewCenter s);
          newCenter = subtract mousePosition (multiply offset beta)
      in s\<lparr>viewZoom := newZoom, viewCenter := newCenter\<rparr>)"

definition onMouseDrag :: "point \<Rightarrow> state \<Rightarrow> state" where
  "onMouseDrag delta s = s\<lparr>viewCenter := subtract (viewCenter s) delta\<rparr>"

section \<open>Loading with a header\<close>

text \<open>
  The two loaders that read a header line differ in one statement: the first calls
  \<open>clearPolygons\<close> before anything else, the second does not. All that follows that
  statement is the same text in both and is modelled once.
\<close>

text \<open>\<open>parseCSVRowJS(row)\<close>: a double quote toggles \<open>inQuotes\<close> and is dropped.\<close>

fun parseCSVRowJS_loop :: "string \<Rightarrow> string list \<Rightarrow> string \<Rightarrow> bool \<Rightarrow> string list" where
  "parseCSVRowJS_loop [] result current inQuotes = result @ [current]"
| "parseCSVRowJS_loop (c # cs) result current inQuotes =
     (if c = CHR 0x22 then parseCSVRowJS_loop cs result current (\<not> inQuotes)
      else if c = CHR '','' \<and> \<not> inQuotes then parseCSVRowJS_loop cs (result @ [current]) [] inQuotes
      else parseCSVRowJS_loop cs result (current @ [c]) inQuotes)"

definition parseCSVRowJS :: "string \<Rightarrow> string list" where
  "parseCSVRowJS row = parseCSVRowJS_loop row [] [] False"

record columns =
  coordsIndex :: int
  colorRIndex :: int
  colorGIndex :: int
  colorBIndex :: int

text \<open>The loop over the header: a later column that matches replaces an earlier one.\<close>

fun findColumns :: "string list \<Rightarrow> int \<Rightarrow> columns \<Rightarrow> columns" where
  "findColumns [] i ix = ix"
| "findColumns (name # rest) i ix =
     (let h = toLowerCase name;
          ix1 = (if includesStr h ''coordinates'' \<or> includesStr h ''polygon_coords''
                 then ix\<lparr>coordsIndex := i\<rparr> else ix);
          ix2 = (if includesStr h ''color_r'' then ix1\<lparr>colorRIndex := i\<rparr> else ix1);
          ix3 = (if includesStr h ''color_g'' then ix2\<lparr>colorGIndex := i\<rparr> else ix2);
          ix4 = (if includesStr h ''color_b'' then ix3\<lparr>colorBIndex := i\<rparr> else ix3)
      in findColumns rest (i + 1) ix4)"

text \<open>\<open>row[i]\<close>: \<open>undefined\<close> (\<open>None\<close>) for \<open>-1\<close> and past the end.\<close>

definition field :: "string list \<Rightarrow> int \<Rightarrow> string option" where
  "field row i = (if 0 \<le> i \<and> nat i < length row then Some (row ! nat i) else None)"

text \<open>
  \<open>parseFloat(row[i] || 0)\<close>: a missing or empty field gives the number \<open>0\<close>, whose
  string \<open>parseFloat\<close> reads back as \<open>0\<close>.
\<close>

definition channel :: "string list \<Rightarrow> int \<Rightarrow> jsnum" where
  "channel row i =
     (case field row i of
        None \<Rightarrow> Num 0
      | Some f \<Rightarrow> if f = [] then Num 0 else parseFloat f)"

text \<open>The two conditionals on the channels, in the order of the source.\<close>

definition normalizeColor :: "jsnum \<times> jsnum \<times> jsnum \<Rightarrow> jsnum \<times> jsnum \<times> jsnum" where
  "normalizeColor rgb =
     (let (r, g, b) = rgb;
          (r, g, b) =
            (if js_le r (Num 1) \<and> js_le g (Num 1) \<and> js_le b (Num 1)
             then (Math_floor (js_mul r (Num 255)), Math_floor (js_mul g (Num 255)),
                   Math_floor (js_mul b (Num 255)))
             else (r, g, b))
      in if js_eq r (Num 0) \<and> js_eq g (Num 0) \<and> js_eq b (Num 0)
         then (Num 255, Num 255, Num 255)
         else (r, g, b))"

definition cleanCoords :: "string \<Rightarrow> string" where
  "cleanCoords coordsStr = trim (filter (\<lambda>c. c \<noteq> CHR 0x22) coordsStr)"

definition toJsonCoords :: "string \<Rightarrow> string" where
  "toJsonCoords coordsStr =
     map (\<lambda>c. if c = CHR ''('' then CHR ''['' else if c = CHR '')'' then CHR '']'' else c)
       coordsStr"

text \<open>
  The \<open>try\<close> block of a row. The accumulator is \<open>polygonCount\<close>, \<open>errorCount\<close> and
  the canvas state. \<open>continue\<close> leaves it as it is; the \<open>catch\<close> adds one to
  \<open>errorCount\<close>.
\<close>

definition rowBody :: "columns \<Rightarrow> string list \<Rightarrow> nat \<times> nat \<times> state \<Rightarrow> nat \<times> nat \<times> state" where
  "rowBody ix row acc =
     (let (polygonCount, errorCount, s) = acc;
          coordsStr = (case field row (coordsIndex ix) of None \<Rightarrow> [] | Some f \<Rightarrow> f);
          coordsStr = cleanCoords coordsStr;
          jsonCoordsStr = toJsonCoords coordsStr
      in case JSON_parse jsonCoordsStr of
           Inl e \<Rightarrow> (polygonCount, errorCount + 1, s)
         | Inr coords \<Rightarrow>
             (case getLength coords of
                Inl e \<Rightarrow> (polygonCount, errorCount + 1, s)
              | Inr len \<Rightarrow>
                  if (case len of None \<Rightarrow> False | Some n \<Rightarrow> n < 3)
                  then (polygonCount, errorCount, s)
                  else
                    (let (r, g, b) = normalizeColor (channel row (colorRIndex ix),
                                       channel row (colorGIndex ix), channel row (colorBIndex ix));
                         (success, s') = createPolygon coords r g b s
                     in if success then (polygonCount + 1, errorCount, s')
                        else (polygonCount, errorCount + 1, s'))))"

text \<open>A round of the first loop (rows 1 to 5) and of the second (rows 6 and on).\<close>

definition processRowFirst :: "nat \<Rightarrow> columns \<Rightarrow> nat \<times> nat \<times> state \<Rightarrow> string \<Rightarrow> nat \<times> nat \<times> state" where
  "processRowFirst headerLength ix acc line =
     (let row = parseCSVRowJS line
      in if length row < headerLength then acc else rowBody ix row acc)"

definition processRowRest :: "nat \<Rightarrow> columns \<Rightarrow> nat \<times> nat \<times> state \<Rightarrow> string \<Rightarrow> nat \<times> nat \<times> state" where
  "processRowRest headerLength ix acc line =
     (let row = parseCSVRowJS line
      in if length row < headerLength \<or> coordsIndex ix = - 1 then acc else rowBody ix row acc)"

datatype outcome = NotEnoughLines | NoCoordinatesColumn | Finished nat nat

text \<open>
  From \<open>var lines = csv.trim().split('\n')\<close> to the end of \<open>reader.onload\<close>. The result
  is what the debug log reports last, and the canvas state.
\<close>

definition loadLines :: "string \<Rightarrow> state \<Rightarrow> outcome \<times> state" where
  "loadLines csv s =
     (let lines = split CHR 0x0A (trim csv)
      in if length lines < 2 then (NotEnoughLines, s)
         else
           (let header = split CHR '','' (lines ! 0);
                ix = findColumns header 0
                       \<lparr> coordsIndex = - 1, colorRIndex = - 1, colorGIndex = - 1,
                         colorBIndex = - 1 \<rparr>
            in if coordsIndex ix = - 1 then (NoCoordinatesColumn, s)
               else
                 (let acc = foldl (processRowFirst (length header) ix) (0, 0, s)
                              (take 5 (drop 1 lines));
                      (polygonCount, errorCount, s') =
                        foldl (processRowRest (length header) ix) acc (drop 6 lines)
                  in (Finished polygonCount errorCount, s'))))"

definition loadCSV_replace :: "string \<Rightarrow> state \<Rightarrow> outcome \<times> state" where
  "loadCSV_replace csv s = loadLines csv (clearPolygons s)"

definition loadCSV_append :: "string \<Rightarrow> state \<Rightarrow> outcome \<times> state" where
  "loadCSV_append csv s = loadLines csv s"

section \<open>Loading four fixed columns\<close>

text \<open>
  The third loader has its own \<open>parseCSVRowJS\<close>, which takes the whole text, skips the
  lines that are empty once trimmed and trims every field.
\<close>

fun fieldsLoop :: "string \<Rightarrow> string list \<Rightarrow> string \<Rightarrow> bool \<Rightarrow> string list" where
  "fieldsLoop [] fieldList current inQuotes = fieldList @ [trim current]"
| "fieldsLoop (c # cs) fieldList current inQuotes =
     (if c = CHR 0x22 then fieldsLoop cs fieldList current (\<not> inQuotes)
      else if c = CHR '','' \<and> \<not> inQuotes then fieldsLoop cs (fieldList @ [trim current]) [] inQuotes
      else fieldsLoop cs fieldList (current @ [c]) inQuotes)"

definition parseCSVRowJS_text :: "string \<Rightarrow> string list list" where
  "parseCSVRowJS_text csvText =
     map (\<lambda>line. fieldsLoop line [] [] False)
       (filter (\<lambda>line. line \<noteq> []) (map trim (split CHR 0x0A csvText)))"

text \<open>The loop \<open>for (var k = 0; k < coordPairs.length; k += 2)\<close>.\<close>

function pairLoop :: "nat \<Rightarrow> string list \<Rightarrow> jsval list \<Rightarrow> jsval list" where
  "pairLoop k coordPairs coords =
     (if k < length coordPairs then
        (if k + 1 < length coordPairs then
           (let x = parseFloat (trim (coordPairs ! k));
                y = parseFloat (trim (coordPairs ! (k + 1)))
            in if x \<noteq> NaN \<and> y \<noteq> NaN
               then pairLoop (k + 2) coordPairs (coords @ [Arr [Number x, Number y]])
               else pairLoop (k + 2) coordPairs coords)
         else pairLoop (k + 2) coordPairs coords)
      else coords)"
  by pat_completeness auto
termination
  by (relation "measure (\<lambda>(k, coordPairs, coords). length coordPairs - k)") auto

declare pairLoop.simps [simp del]

text \<open>
  A round of the loop over the rows: the accumulator is \<open>polygonsLoaded\<close> and the
  canvas state. Nothing in the \<open>try\<close> block can throw, so its \<open>catch\<close> has no branch here.
\<close>

definition processFixedRow :: "nat \<times> state \<Rightarrow> string list \<Rightarrow> nat \<times> state" where
  "processFixedRow acc row =
     (let (polygonsLoaded, s) = acc
      in if length row \<ge> 4 then
           (let polygonStr = row ! 0;
                r = js_or (parseInt (row ! 1)) (Num 0);
                g = js_or (parseInt (row ! 2)) (Num 0);
                b = js_or (parseInt (row ! 3)) (Num 0);
                coordPairs = split CHR '','' (filter (\<lambda>c. c \<noteq> CHR ''('' \<and> c \<noteq> CHR '')'') polygonStr);
                coords = pairLoop 0 coordPairs []
            in if length coords \<ge> 3 then
                 (let (success, s') = createPolygon (Arr coords) r g b s
                  in if success then (polygonsLoaded + 1, s') else (polygonsLoaded, s'))
               else (polygonsLoaded, s))
         else (polygonsLoaded, s))"

definition loadCSV_fixed :: "string \<Rightarrow> state \<Rightarrow> nat \<times> state" where
  "loadCSV_fixed csvText s = foldl processFixedRow (0, s) (parseCSVRowJS_text csvText)"

section \<open>Notions the properties are stated with\<close>

text \<open>The grid invariant: at least one column and one row.\<close>

definition gridInvariant :: "state \<Rightarrow> bool" where
  "gridInvariant s = (1 \<le> gridColumns s \<and> 1 \<le> gridRows s)"

text \<open>
  The states the page can be in: the state it starts in, and every state a handler
  leaves behind, whether it returned or threw. Editing the tile size input changes
  its text and nothing else.
\<close>

inductive reachable :: "state \<Rightarrow> bool" where
  start: "reachable (initializePaper viewSize tileInput)"
| editTileSize: "reachable s \<Longrightarrow> reachable (s\<lparr>tileSizeInput := typed\<rparr>)"
| updateGrid: "reachable s \<Longrightarrow> reachable (updateGrid s)"
| addColumn: "reachable s \<Longrightarrow> reachable (snd (addColumn s))"
| removeColumn: "reachable s \<Longrightarrow> reachable (snd (removeColumn s))"
| addRow: "reachable s \<Longrightarrow> reachable (snd (addRow s))"
| removeRow: "reachable s \<Longrightarrow> reachable (snd (removeRow s))"
| loadReplace: "reachable s \<Longrightarrow> reachable (snd (loadCSV_replace csv s))"
| loadAppend: "reachable s \<Longrightarrow> reachable (snd (loadCSV_append csv s))"
| loadFixed: "reachable s \<Longrightarrow> reachable (snd (loadCSV_fixed csv s))"
| wheel: "reachable s \<Longrightarrow> reachable (onMouseWheel viewToProject event s)"
| drag: "reachable s \<Longrightarrow> reachable (onMouseDrag delta s)"

text \<open>
  The sequence every grid method ends with: \<open>this.drawGrid(tileSize)\<close> with the tile
  size of the input, then \<open>this.updatePolygonPositions()\<close>.
\<close>

definition sync :: "state \<Rightarrow> error option \<times> state" where
  "sync s = updatePolygonPositions (drawGrid (readTileSize s) s)"

text \<open>A pass of \<open>updatePolygonPositions\<close>, as a function on states.\<close>

definition reproject :: "state \<Rightarrow> state" where
  "reproject s = snd (updatePolygonPositions s)"

text \<open>Whether a list of calls has a \<open>drawGrid\<close> with an \<open>updatePolygonPositions\<close> after it.\<close>

fun syncPerformed :: "call list \<Rightarrow> bool" where
  "syncPerformed [] = False"
| "syncPerformed (DrawGrid t # cs) = (UpdatePolygonPositions \<in> set cs \<or> syncPerformed cs)"
| "syncPerformed (c # cs) = syncPerformed cs"

text \<open>A sequence of wheel events, and the factor an event multiplies the zoom by.\<close>

definition wheelEvents :: "(state \<Rightarrow> point \<Rightarrow> point) \<Rightarrow> wheelEvent list \<Rightarrow> state \<Rightarrow> state" where
  "wheelEvents viewToProject events s = foldl (\<lambda>s e. onMouseWheel viewToProject e s) s events"

definition zoomStep :: "wheelEvent \<Rightarrow> rat" where
  "zoomStep e = (if js_lt (wheelDelta e) (Num 0) then 105 / 100 else 95 / 100)"

text \<open>
  The values \<open>createPolygon\<close> makes a polygon of: the arrays with a first element and
  no \<open>null\<close> element.
\<close>

fun polygonOk :: "jsval \<Rightarrow> bool" where
  "polygonOk (Arr (x # xs)) = (Null \<notin> set (x # xs))"
| "polygonOk v = False"

text \<open>The path \<open>createPolygon\<close> pushes for an array of vertices.\<close>

definition newPath :: "state \<Rightarrow> jsval list \<Rightarrow> jsnum \<Rightarrow> jsnum \<Rightarrow> jsnum \<Rightarrow> path" where
  "newPath s xs r g b =
     \<lparr> originalCoords = xs,
       segments = snd (projectCoords
                    (computeTransform (gridColumns s) (gridRows s) (readTileSize s)) xs []),
       closed = True,
       fillColor = Some (RGB (js_div r (Num 255)) (js_div g (Num 255)) (js_div b (Num 255))),
       strokeColor = Some (RGBA (Num 0) (Num 0) (Num 0) (Num (1 / 2))),
       strokeWidth = Num 1 \<rparr>"

text \<open>The value the coordinate field of a row parses to, or the SyntaxError.\<close>

definition rowCoords :: "columns \<Rightarrow> string list \<Rightarrow> error + jsval" where
  "rowCoords ix row =
     JSON_parse (toJsonCoords (cleanCoords
       (case field row (coordsIndex ix) of None \<Rightarrow> [] | Some f \<Rightarrow> f)))"

text \<open>
  What becomes of a line of a file with a header: a polygon, an error that is counted,
  or nothing at all. A line with too few fields and an array of fewer than three
  elements are skipped; a field that does not parse, a value that is no array and an
  array with a \<open>null\<close> element are counted.
\<close>

datatype rowStatus = Accepted | Counted | Skipped

definition lineStatus :: "nat \<Rightarrow> columns \<Rightarrow> string \<Rightarrow> rowStatus" where
  "lineStatus headerLength ix line =
     (let row = parseCSVRowJS line
      in if length row < headerLength then Skipped
         else (case rowCoords ix row of
                 Inl e \<Rightarrow> Counted
               | Inr (Arr xs) \<Rightarrow>
                   if length xs < 3 then Skipped
                   else if Null \<in> set xs then Counted else Accepted
               | Inr v \<Rightarrow> Counted))"

text \<open>The lines of a text, its header and the columns found in it, as \<open>loadLines\<close> has them.\<close>

definition csvLines :: "string \<Rightarrow> string list" where
  "csvLines csv = split CHR 0x0A (trim csv)"

definition csvHeader :: "string \<Rightarrow> string list" where
  "csvHeader csv = split CHR '','' (csvLines csv ! 0)"

definition csvColumns :: "string \<Rightarrow> columns" where
  "csvColumns csv =
     findColumns (csvHeader csv) 0
       \<lparr> coordsIndex = - 1, colorRIndex = - 1, colorGIndex = - 1, colorBIndex = - 1 \<rparr>"

text \<open>The color of a row, and the path made of a line that becomes a polygon.\<close>

definition rowColor :: "columns \<Rightarrow> string list \<Rightarrow> jsnum \<times> jsnum \<times> jsnum" where
  "rowColor ix row =
     normalizeColor (channel row (colorRIndex ix), channel row (colorGIndex ix),
                     channel row (colorBIndex ix))"

definition linePath :: "state \<Rightarrow> columns \<Rightarrow> string \<Rightarrow> path" where
  "linePath s ix line =
     (let row = parseCSVRowJS line;
          (r, g, b) = rowColor ix row
      in newPath s (case rowCoords ix row of Inr (Arr xs) \<Rightarrow> xs | _ \<Rightarrow> []) r g b)"

text \<open>How many lines of a list have a given status.\<close>

definition countStatus :: "rowStatus \<Rightarrow> nat \<Rightarrow> columns \<Rightarrow> string list \<Rightarrow> nat" where
  "countStatus st hl ix ls = length (filter (\<lambda>line. lineStatus hl ix line = st) ls)"

text \<open>Consecutive pairs of a list; an element left alone at the end is dropped.\<close>

fun pairUp :: "'a list \<Rightarrow> ('a \<times> 'a) list" where
  "pairUp (a # b # rest) = (a, b) # pairUp rest"
| "pairUp rest = []"

text \<open>
  The vertices of a coordinate field of the four-column format: the pieces between
  commas, parentheses deleted, taken in pairs; the pairs of which both pieces parse
  to a number.
\<close>

definition validPairs :: "string \<Rightarrow> jsval list" where
  "validPairs polygonStr =
     map (\<lambda>(a, b). Arr [Number (parseFloat (trim a)), Number (parseFloat (trim b))])
       (filter (\<lambda>(a, b). parseFloat (trim a) \<noteq> NaN \<and> parseFloat (trim b) \<noteq> NaN)
          (pairUp (split CHR '','' (filter (\<lambda>c. c \<noteq> CHR ''('' \<and> c \<noteq> CHR '')'') polygonStr))))"

definition fixedRowAccepted :: "string list \<Rightarrow> bool" where
  "fixedRowAccepted row = (4 \<le> length row \<and> 3 \<le> length (validPairs (row ! 0)))"

text \<open>The color and the path of a row of the four-column format.\<close>

definition fixedColor :: "string list \<Rightarrow> jsnum \<times> jsnum \<times> jsnum" where
  "fixedColor row =
     (js_or (parseInt (row ! 1)) (Num 0), js_or (parseInt (row ! 2)) (Num 0),
      js_or (parseInt (row ! 3)) (Num 0))"

definition fixedPath :: "state \<Rightarrow> string list \<Rightarrow> path" where
  "fixedPath s row =
     (let (r, g, b) = fixedColor row in newPath s (validPairs (row ! 0)) r g b)"

text \<open>A header name that is taken for the coordinates column.\<close>

definition isCoordsName :: "string \<Rightarrow> bool" where
  "isCoordsName name =
     (includesStr (toLowerCase name) ''coordinates''
      \<or> includesStr (toLowerCase name) ''polygon_coords'')"

text \<open>
  States to evaluate on: the page as it starts, and the page after nine calls of
  \<open>removeColumn\<close> and six of \<open>removeRow\<close>.
\<close>

definition exampleState :: state where
  "exampleState = initializePaper (Num 900, Num 600) ''300''"

definition removeColumns :: "nat \<Rightarrow> state \<Rightarrow> state" where
  "removeColumns n s = ((\<lambda>s. snd (removeColumn s)) ^^ n) s"

definition removeRows :: "nat \<Rightarrow> state \<Rightarrow> state" where
  "removeRows n s = ((\<lambda>s. snd (removeRow s)) ^^ n) s"

definition floorState :: state where
  "floorState = removeRows 6 (removeColumns 9 exampleState)"

definition triangle :: "jsval" where
  "triangle = Arr [Arr [Number (Num 0), Number (Num 0)], Arr [Number (Num 300), Number (Num 0)],
                   Arr [Number (Num 0), Number (Num 300)]]"

text \<open>The page after a triangle was created, and the same with one more column.\<close>

definition polygonState :: state where
  "polygonState = snd (createPolygon triangle (Num 255) (Num 0) (Num 0) exampleState)"

definition widerState :: state where
  "widerState = polygonState\<lparr>gridColumns := 11\<rparr>"

text \<open>A wheel event that zooms in and one that zooms out, with the cursor at \<open>(100, 50)\<close>.\<close>

definition zoomInEvent :: wheelEvent where
  "zoomInEvent = \<lparr> wheelDelta = Num (- 1), wheelPoint = (Num 100, Num 50) \<rparr>"

definition zoomOutEvent :: wheelEvent where
  "zoomOutEvent = \<lparr> wheelDelta = Num 1, wheelPoint = (Num 100, Num 50) \<rparr>"

text \<open>
  Files to evaluate on. A field in double quotes, and a text of lines that each end
  with a line feed.
\<close>

definition quoted :: "string \<Rightarrow> string" where
  "quoted f = CHR 0x22 # f @ [CHR 0x22]"

definition unlines :: "string list \<Rightarrow> string" where
  "unlines ls = concat (map (\<lambda>l. l @ [CHR 0x0A]) ls)"

text \<open>
  A file with a header and five rows of the same triangle. The third row's coordinate
  field lacks its closing brackets; the colors of the others are fractions, all zero,
  and whole numbers.
\<close>

definition exampleCsv :: string where
  "exampleCsv = unlines
     [''id,polygon_coords,color_r,color_g,color_b'',
      ''1,'' @ quoted ''[(0, 0), (300, 0), (0, 300)]'' @ '',0.5,0.5,0.5'',
      ''2,'' @ quoted ''[(0, 0), (300, 0), (0, 300)]'' @ '',0,0,0'',
      ''3,'' @ quoted ''[(0, 0), (300, 0), (0, 300'' @ '',10,200,30'',
      ''4,'' @ quoted ''[(0, 0), (300, 0), (0, 300)]'' @ '',10,200,30'',
      ''5,'' @ quoted ''[(0, 0), (300, 0), (0, 300)]'' @ '',10,200,30'']"

text \<open>The same, but the third row has two vertices, and the fourth row two fields.\<close>

definition rejectingCsv :: string where
  "rejectingCsv = unlines
     [''id,polygon_coords,color_r,color_g,color_b'',
      ''1,'' @ quoted ''[(0, 0), (300, 0), (0, 300)]'' @ '',0.5,0.5,0.5'',
      ''2,'' @ quoted ''[(0, 0), (300, 0), (0, 300)]'' @ '',0,0,0'',
      ''3,'' @ quoted ''[(0, 0), (300, 0)]'' @ '',10,200,30'',
      ''4,'' @ quoted ''[(0, 0), (300, 0), (0, 300)]'',
      ''5,'' @ quoted ''[(0, 0), (300, 0), (0, 300)]'' @ '',10,200,30'']"

text \<open>A file whose header names no coordinates column.\<close>

definition headlessCsv :: string where
  "headlessCsv = unlines
     [''id,shape,color_r,color_g,color_b'',
      ''1,'' @ quoted ''[(0, 0), (300, 0), (0, 300)]'' @ '',0.5,0.5,0.5'']"

text \<open>
  Five rows of the four-column format. The third row has a piece that is no number
  and keeps two vertices; the fourth has a seventh piece, the fifth a fourth vertex
  besides one that does not parse.
\<close>

definition fixedCsv :: string where
  "fixedCsv = unlines
     [quoted ''(0, 0), (300, 0), (0, 300)'' @ '',0.5,0.5,0.5'',
      quoted ''(0, 0), (300, 0), (0, 300)'' @ '',0,0,0'',
      quoted ''(0, 0), (300, x), (0, 300)'' @ '',10,200,30'',
      quoted ''(0, 0), (300, 0), (0, 300), 7'' @ '',10,200,30'',
      quoted ''(0, 0), (300, 0), (a, 300), (1, 1)'' @ '',10,200,30'']"

text \<open>The view's map from view points to project points, at zoom 1 and centered.\<close>

definition identityView :: "state \<Rightarrow> point \<Rightarrow> point" where
  "identityView s p = p"

section \<open>The transform fits the canvas\<close>

lemma computeTransform_pos:
  assumes "1 \<le> c" and "1 \<le> r" and "0 < t"
  shows "computeTransform c r (Num t) =
    \<lparr> scale = Num (min (900 / (of_int c * t)) (600 / (of_int r * t))),
      displayWidth = Num (of_int c * t * min (900 / (of_int c * t)) (600 / (of_int r * t))),
      displayHeight = Num (of_int r * t * min (900 / (of_int c * t)) (600 / (of_int r * t))),
      offsetX = Num ((900 - of_int c * t * min (900 / (of_int c * t)) (600 / (of_int r * t))) / 2),
      offsetY = Num ((600 - of_int r * t * min (900 / (of_int c * t)) (600 / (of_int r * t))) / 2) \<rparr>"
proof -
  have c: "(of_int c :: rat) * t \<noteq> 0" and r: "(of_int r :: rat) * t \<noteq> 0"
    using assms by auto
  show ?thesis
    using c r
    by (simp add: computeTransform_def Let_def canvasWidth_def canvasHeight_def
        Math_min_def js_sub_def min_def)
qed



section \<open>What the grid methods leave alone\<close>

lemma updatePolygonPositions_state:
  "snd (updatePolygonPositions s) =
     s\<lparr>polygonPaths :=
         snd (updatePaths (computeTransform (gridColumns s) (gridRows s) (readTileSize s))
                (polygonPaths s)),
       calls := calls s @ [UpdatePolygonPositions]\<rparr>"
  by (simp add: updatePolygonPositions_def Let_def split: prod.splits)

lemma updatePolygonPositions_error:
  "fst (updatePolygonPositions s) =
     fst (updatePaths (computeTransform (gridColumns s) (gridRows s) (readTileSize s))
            (polygonPaths s))"
  by (simp add: updatePolygonPositions_def Let_def split: prod.splits)

lemma drawGrid_fields:
  "gridColumns (drawGrid t s) = gridColumns s"
  "gridRows (drawGrid t s) = gridRows s"
  "polygonPaths (drawGrid t s) = polygonPaths s"
  "tileSizeInput (drawGrid t s) = tileSizeInput s"
  "viewZoom (drawGrid t s) = viewZoom s"
  "viewCenter (drawGrid t s) = viewCenter s"
  "calls (drawGrid t s) = calls s @ [DrawGrid t]"
  by (simp_all add: drawGrid_def Let_def)

lemma readTileSize_frame:
  "readTileSize (drawGrid t s) = readTileSize s"
  "readTileSize (s\<lparr>gridColumns := c\<rparr>) = readTileSize s"
  "readTileSize (s\<lparr>gridRows := r\<rparr>) = readTileSize s"
  "readTileSize (s\<lparr>polygonPaths := ps\<rparr>) = readTileSize s"
  "readTileSize (s\<lparr>calls := cs\<rparr>) = readTileSize s"
  by (simp_all add: readTileSize_def drawGrid_fields)

section \<open>Reprojection keeps the world vertices and the style\<close>

text \<open>A round of the loop changes nothing of a path but its segments.\<close>

lemma updatePath_segments_only:
  "snd (updatePath tr p) = p\<lparr>segments := segments (snd (updatePath tr p))\<rparr>"
  by (cases p) (simp add: updatePath_def Let_def split: prod.splits option.splits)

lemma updatePath_ignores_segments:
  "updatePath tr (p\<lparr>segments := segs\<rparr>) = updatePath tr p"
  by (simp add: updatePath_def Let_def split: prod.splits option.splits)

lemma updatePath_idem:
  "updatePath tr (snd (updatePath tr p)) = updatePath tr p"
  by (subst updatePath_segments_only) (rule updatePath_ignores_segments)

lemma updatePaths_segments_only:
  "map (\<lambda>p. p\<lparr>segments := []\<rparr>) (snd (updatePaths tr ps)) = map (\<lambda>p. p\<lparr>segments := []\<rparr>) ps"
proof (induction ps)
  case Nil
  show ?case by simp
next
  case (Cons p ps)
  have "(snd (updatePath tr p))\<lparr>segments := []\<rparr> = p\<lparr>segments := []\<rparr>"
    by (subst updatePath_segments_only) simp
  with Cons show ?case
    by (auto split: prod.splits option.splits)
qed

lemma updatePaths_idem:
  "updatePaths tr (snd (updatePaths tr ps)) = updatePaths tr ps"
proof (induction ps)
  case Nil
  show ?case by simp
next
  case (Cons p ps)
  obtain e p' where p: "updatePath tr p = (e, p')" by (cases "updatePath tr p")
  then have p': "updatePath tr p' = (e, p')"
    using updatePath_idem [of tr p] by simp
  obtain es ps' where ps: "updatePaths tr ps = (es, ps')" by (cases "updatePaths tr ps")
  with Cons have ps': "updatePaths tr ps' = (es, ps')" by simp
  show ?case
    by (cases e) (simp_all add: p p' ps ps')
qed

lemma reproject_segments_only:
  "map (\<lambda>p. p\<lparr>segments := []\<rparr>) (polygonPaths (reproject s)) =
   map (\<lambda>p. p\<lparr>segments := []\<rparr>) (polygonPaths s)"
  by (simp add: reproject_def updatePolygonPositions_state updatePaths_segments_only)

lemma reproject_funpow_segments_only:
  "map (\<lambda>p. p\<lparr>segments := []\<rparr>) (polygonPaths ((reproject ^^ n) s)) =
   map (\<lambda>p. p\<lparr>segments := []\<rparr>) (polygonPaths s)"
  by (induction n) (simp_all add: reproject_segments_only)

text \<open>
  Claim C7. Whatever the number \<open>n\<close> of passes of \<open>updatePolygonPositions\<close>, every
  polygon keeps its \<open>originalCoords\<close>, its fill color, its stroke color, its stroke width
  and its closed flag: the paths before and after differ in their segments at most.
\<close>

theorem reprojection_keeps_world_vertices:
  "map (\<lambda>p. p\<lparr>segments := []\<rparr>) (polygonPaths ((reproject ^^ n) s)) =
     map (\<lambda>p. p\<lparr>segments := []\<rparr>) (polygonPaths s)
   \<and> map originalCoords (polygonPaths ((reproject ^^ n) s)) = map originalCoords (polygonPaths s)
   \<and> map fillColor (polygonPaths ((reproject ^^ n) s)) = map fillColor (polygonPaths s)
   \<and> map strokeColor (polygonPaths ((reproject ^^ n) s)) = map strokeColor (polygonPaths s)
   \<and> map strokeWidth (polygonPaths ((reproject ^^ n) s)) = map strokeWidth (polygonPaths s)
   \<and> map closed (polygonPaths ((reproject ^^ n) s)) = map closed (polygonPaths s)"
proof -
  let ?erase = "\<lambda>p. p\<lparr>segments := []\<rparr>"
  let ?ps' = "polygonPaths ((reproject ^^ n) s)" and ?ps = "polygonPaths s"
  have e: "map ?erase ?ps' = map ?erase ?ps"
    by (rule reproject_funpow_segments_only)
  have f: "map f ?ps' = map f ?ps" if "\<And>p. f (?erase p) = f p" for f :: "path \<Rightarrow> 'a"
  proof -
    have "map f ?ps' = map f (map ?erase ?ps')" by (simp add: that)
    also have "\<dots> = map f (map ?erase ?ps)" by (simp only: e)
    also have "\<dots> = map f ?ps" by (simp add: that)
    finally show ?thesis .
  qed
  show ?thesis
    using e by (simp add: f)
qed

section \<open>The example states\<close>

lemma parseInt_300: "parseInt ''300'' = Num 300"
  by code_simp

lemma exampleState_fields:
  "gridColumns exampleState = 10" "gridRows exampleState = 7"
  "tileSizeInput exampleState = ''300''" "polygonPaths exampleState = []"
  "calls exampleState = [DrawGrid (Num 300)]"
  "viewZoom exampleState = Num 1" "viewCenter exampleState = (Num 450, Num 300)"
  by (simp_all add: exampleState_def initializePaper_def drawGrid_fields)

lemma readTileSize_exampleState: "readTileSize exampleState = Num 300"
  by (simp add: readTileSize_def exampleState_fields parseInt_300 js_or_def truthy_def)

lemma transform_10_7: "computeTransform 10 7 (Num 300) =
  \<lparr>scale = Num (2 / 7), displayWidth = Num (6000 / 7),
    displayHeight = Num 600, offsetX = Num (150 / 7), offsetY = Num 0\<rparr>"
  using computeTransform_pos [of 10 7 300] by simp

lemma transform_11_7: "computeTransform 11 7 (Num 300) =
  \<lparr>scale = Num (3 / 11), displayWidth = Num 900,
    displayHeight = Num (6300 / 11), offsetX = Num 0, offsetY = Num (150 / 11)\<rparr>"
  using computeTransform_pos [of 11 7 300] by simp

lemma polygonState_paths:
  "polygonPaths polygonState = [\<lparr>originalCoords =
       [Arr [Number (Num 0), Number (Num 0)],
        Arr [Number (Num 300), Number (Num 0)],
        Arr [Number (Num 0), Number (Num 300)]],
       segments =
         [(Num (150 / 7), Num 0), (Num (750 / 7), Num 0),
          (Num (150 / 7), Num (600 / 7))],
       closed = True, fillColor = Some (RGB (Num 1) (Num 0) (Num 0)),
       strokeColor = Some (RGBA (Num 0) (Num 0) (Num 0) (Num (1 / 2))),
       strokeWidth = Num 1\<rparr>]"
  by (simp add: polygonState_def createPolygon_def Let_def exampleState_fields
      readTileSize_exampleState transform_10_7 triangle_def logFirstCoordinate_def)

lemma polygonState_fields:
  "gridColumns polygonState = 10" "gridRows polygonState = 7"
  "readTileSize polygonState = Num 300"
  using readTileSize_exampleState
  by (simp_all add: polygonState_def createPolygon_def Let_def exampleState_fields readTileSize_def
      split: option.splits jsval.splits prod.splits)

lemma removeColumn_grid:
  "gridColumns (snd (removeColumn s)) = (if gridColumns s > 1 then gridColumns s - 1 else gridColumns s)"
  "gridRows (snd (removeColumn s)) = gridRows s"
  by (simp_all add: removeColumn_def updatePolygonPositions_state drawGrid_fields Let_def)

lemma removeRow_grid:
  "gridRows (snd (removeRow s)) = (if gridRows s > 1 then gridRows s - 1 else gridRows s)"
  "gridColumns (snd (removeRow s)) = gridColumns s"
  by (simp_all add: removeRow_def updatePolygonPositions_state drawGrid_fields Let_def)

lemma removeColumns_grid:
  "1 \<le> gridColumns s \<Longrightarrow> gridColumns (removeColumns n s) = max 1 (gridColumns s - int n)"
  "gridRows (removeColumns n s) = gridRows s"
  by (induction n) (auto simp: removeColumns_def removeColumn_grid)

lemma removeRows_grid:
  "1 \<le> gridRows s \<Longrightarrow> gridRows (removeRows n s) = max 1 (gridRows s - int n)"
  "gridColumns (removeRows n s) = gridColumns s"
  by (induction n) (auto simp: removeRows_def removeRow_grid)

lemma floorState_grid:
  "gridColumns floorState = 1" "gridRows floorState = 1"
  by (simp_all add: floorState_def removeRows_grid removeColumns_grid exampleState_fields)

text \<open>
  Two passes on the page with a triangle and an eleventh column: the world vertices and
  the fill color are those the triangle was created with, and the segments have moved.
\<close>

theorem reprojection_keeps_world_vertices_witness:
  "map originalCoords (polygonPaths ((reproject ^^ 2) widerState)) =
     [[Arr [Number (Num 0), Number (Num 0)], Arr [Number (Num 300), Number (Num 0)],
       Arr [Number (Num 0), Number (Num 300)]]]
   \<and> map fillColor (polygonPaths ((reproject ^^ 2) widerState)) = [Some (RGB (Num 1) (Num 0) (Num 0))]
   \<and> map segments (polygonPaths widerState) =
       [[(Num (150 / 7), Num 0), (Num (750 / 7), Num 0), (Num (150 / 7), Num (600 / 7))]]
   \<and> map segments (polygonPaths (reproject widerState)) =
       [[(Num 0, Num (150 / 11)), (Num (900 / 11), Num (150 / 11)), (Num 0, Num (1050 / 11))]]"
proof -
  have w: "polygonPaths widerState = polygonPaths polygonState"
    by (simp add: widerState_def)
  have r: "map segments (polygonPaths (reproject widerState)) =
       [[(Num 0, Num (150 / 11)), (Num (900 / 11), Num (150 / 11)), (Num 0, Num (1050 / 11))]]"
    by (simp add: reproject_def updatePolygonPositions_state widerState_def polygonState_fields
        readTileSize_frame transform_11_7 polygonState_paths updatePath_def Let_def)
  from reprojection_keeps_world_vertices [of 2 widerState] r show ?thesis
    by (simp add: w polygonState_paths)
qed

section \<open>Rebuilding and reprojecting twice\<close>

lemma drawGrid_visuals:
  "gridLines (drawGrid t (s\<lparr>polygonPaths := ps, calls := cs\<rparr>)) = gridLines (drawGrid t s)"
  "gridBackground (drawGrid t (s\<lparr>polygonPaths := ps, calls := cs\<rparr>)) =
     gridBackground (drawGrid t s)"
  "gridLines (drawGrid t (drawGrid t' s)) = gridLines (drawGrid t s)"
  "gridBackground (drawGrid t (drawGrid t' s)) = gridBackground (drawGrid t s)"
  by (simp_all add: drawGrid_def Let_def)

lemma sync_state:
  "snd (sync s) =
     (drawGrid (readTileSize s) s)
       \<lparr>polygonPaths :=
          snd (updatePaths (computeTransform (gridColumns s) (gridRows s) (readTileSize s))
                 (polygonPaths s)),
        calls := calls s @ [DrawGrid (readTileSize s), UpdatePolygonPositions]\<rparr>"
  by (simp add: sync_def updatePolygonPositions_state drawGrid_fields readTileSize_frame)

lemma sync_error:
  "fst (sync s) =
     fst (updatePaths (computeTransform (gridColumns s) (gridRows s) (readTileSize s))
            (polygonPaths s))"
  by (simp add: sync_def updatePolygonPositions_error drawGrid_fields readTileSize_frame)

lemma grid_methods_sync:
  "addColumn s = sync (s\<lparr>gridColumns := gridColumns s + 1\<rparr>)"
  "addRow s = sync (s\<lparr>gridRows := gridRows s + 1\<rparr>)"
  "gridColumns s > 1 \<Longrightarrow> removeColumn s = sync (s\<lparr>gridColumns := gridColumns s - 1\<rparr>)"
  "gridRows s > 1 \<Longrightarrow> removeRow s = sync (s\<lparr>gridRows := gridRows s - 1\<rparr>)"
  by (simp_all add: addColumn_def addRow_def removeColumn_def removeRow_def sync_def Let_def)

text \<open>
  Claim C9. Rebuilding the grid and reprojecting the polygons a second time, with the
  grid, the tile size and the polygons as the first time left them, gives the same
  segments for every polygon, the same grid lines and the same background (and throws
  exactly when the first time threw). The same holds of \<open>drawGrid\<close> alone and of
  \<open>updatePolygonPositions\<close> alone.
\<close>

theorem sync_idempotent:
  "polygonPaths (snd (sync (snd (sync s)))) = polygonPaths (snd (sync s))
   \<and> gridLines (snd (sync (snd (sync s)))) = gridLines (snd (sync s))
   \<and> gridBackground (snd (sync (snd (sync s)))) = gridBackground (snd (sync s))
   \<and> fst (sync (snd (sync s))) = fst (sync s)
   \<and> gridLines (drawGrid t (drawGrid t s)) = gridLines (drawGrid t s)
   \<and> gridBackground (drawGrid t (drawGrid t s)) = gridBackground (drawGrid t s)
   \<and> polygonPaths (reproject (reproject s)) = polygonPaths (reproject s)"
proof -
  let ?tr = "computeTransform (gridColumns s) (gridRows s) (readTileSize s)"
  have grid: "gridColumns (snd (sync s)) = gridColumns s" "gridRows (snd (sync s)) = gridRows s"
    "readTileSize (snd (sync s)) = readTileSize s"
    "polygonPaths (snd (sync s)) = snd (updatePaths ?tr (polygonPaths s))"
    by (simp_all add: sync_state drawGrid_fields readTileSize_frame)
  have paths: "polygonPaths (snd (sync (snd (sync s)))) = polygonPaths (snd (sync s))"
    by (subst sync_state) (simp add: grid updatePaths_idem)
  have err: "fst (sync (snd (sync s))) = fst (sync s)"
    by (simp add: sync_error grid updatePaths_idem)
  have lines: "gridLines (snd (sync (snd (sync s)))) = gridLines (snd (sync s))"
    and bg: "gridBackground (snd (sync (snd (sync s)))) = gridBackground (snd (sync s))"
    by (simp_all add: sync_state [of "snd (sync s)"] grid)
      (simp_all add: sync_state [of s] drawGrid_visuals)
  have re: "polygonPaths (reproject (reproject s)) = polygonPaths (reproject s)"
    by (simp add: reproject_def updatePolygonPositions_state readTileSize_frame updatePaths_idem)
  show ?thesis
    using paths lines bg err re by (simp add: drawGrid_visuals)
qed

lemma widerState_fields:
  "gridColumns widerState = 11" "gridRows widerState = 7"
  "readTileSize widerState = Num 300" "polygonPaths widerState = polygonPaths polygonState"
  by (simp_all add: widerState_def polygonState_fields readTileSize_frame)

theorem sync_idempotent_witness:
  "polygonPaths (snd (sync (snd (sync widerState)))) = polygonPaths (snd (sync widerState))
   \<and> gridLines (snd (sync (snd (sync widerState)))) = gridLines (snd (sync widerState))
   \<and> map segments (polygonPaths (snd (sync widerState))) =
       [[(Num 0, Num (150 / 11)), (Num (900 / 11), Num (150 / 11)), (Num 0, Num (1050 / 11))]]
   \<and> fst (sync (snd (sync widerState))) = None"
proof -
  have s: "map segments (polygonPaths (snd (sync widerState))) =
       [[(Num 0, Num (150 / 11)), (Num (900 / 11), Num (150 / 11)), (Num 0, Num (1050 / 11))]]"
    by (simp add: sync_state widerState_fields transform_11_7 polygonState_paths
        updatePath_def Let_def)
  have e: "fst (sync widerState) = None"
    by (simp add: sync_error widerState_fields transform_11_7 polygonState_paths
        updatePath_def Let_def)
  from sync_idempotent [of widerState] s e show ?thesis by simp
qed

section \<open>The zoom stays between 0.05 and 20\<close>

lemma onMouseWheel_zoom:
  "viewZoom s = Num z \<Longrightarrow>
   viewZoom (onMouseWheel v e s) = Num (max (5 / 100) (min 20 (z * zoomStep e)))"
  by (simp add: onMouseWheel_def Let_def Math_max_def Math_min_def zoomStep_def max_def min_def)

lemma wheelEvents_snoc:
  "wheelEvents v (es @ [e]) s = onMouseWheel v e (wheelEvents v es s)"
  by (simp add: wheelEvents_def)

lemma zoom_in_range:
  assumes "viewZoom s = Num z" and "5 / 100 \<le> z" and "z \<le> 20"
  shows "\<exists>z'. viewZoom (wheelEvents v es s) = Num z' \<and> 5 / 100 \<le> z' \<and> z' \<le> 20"
proof (induction es rule: rev_induct)
  case Nil
  from assms show ?case by (simp add: wheelEvents_def)
next
  case (snoc e es)
  then obtain z' where "viewZoom (wheelEvents v es s) = Num z'" by blast
  then have "viewZoom (wheelEvents v (es @ [e]) s) = Num (max (5 / 100) (min 20 (z' * zoomStep e)))"
    by (simp add: wheelEvents_snoc onMouseWheel_zoom)
  then show ?case by simp
qed

lemma clamp_zoom_in:
  fixes a k :: rat
  assumes "1 \<le> a" and "1 \<le> k"
  shows "max (1 / 20) (min 20 (min 20 a * k)) = min 20 (a * k)"
proof (cases "a \<le> 20")
  case True
  have "1 \<le> a * k" using mult_mono [of 1 a 1 k] assms by simp
  with True show ?thesis by (simp add: min_def max_def)
next
  case False
  then have "20 < a" by simp
  moreover have "a \<le> a * k" using assms by (simp add: mult_le_cancel_left1)
  ultimately have "20 < a * k" by (rule less_le_trans)
  moreover have "(20::rat) \<le> 20 * k" using assms by simp
  ultimately show ?thesis using False by (simp add: min_def max_def)
qed

lemma clamp_zoom_out:
  fixes a k :: rat
  assumes "0 < a" and "a \<le> 1" and "0 < k" and "k \<le> 1"
  shows "max (1 / 20) (min 20 (max (1 / 20) a * k)) = max (1 / 20) (a * k)"
proof (cases "1 / 20 \<le> a")
  case True
  have "a * k \<le> 1" using assms by (simp add: mult_le_one)
  with True show ?thesis by (simp add: min_def max_def)
next
  case False
  then have "a < 1 / 20" by simp
  moreover have "a * k \<le> a" using assms by (simp add: mult_le_cancel_left2)
  ultimately have "a * k < 1 / 20" by (rule le_less_trans [rotated])
  moreover have "(1 / 20 :: rat) * k \<le> 1 / 20" using assms by simp
  ultimately show ?thesis using False by (simp add: min_def max_def)
qed

lemma zoom_in_closed_form:
  assumes "viewZoom s = Num 1" and "\<forall>e\<in>set es. js_lt (wheelDelta e) (Num 0)"
  shows "viewZoom (wheelEvents v es s) = Num (min 20 ((21 / 20) ^ length es))"
  using assms(2)
proof (induction es rule: rev_induct)
  case Nil
  from assms(1) show ?case by (simp add: wheelEvents_def)
next
  case (snoc e es)
  have a: "(1::rat) \<le> (21 / 20) ^ length es" by simp
  from snoc have z: "viewZoom (wheelEvents v es s) = Num (min 20 ((21 / 20) ^ length es))"
    by simp
  from snoc.prems have st: "zoomStep e = 21 / 20" by (simp add: zoomStep_def)
  show ?case
    using clamp_zoom_in [OF a, of "21 / 20"]
    by (simp add: wheelEvents_snoc onMouseWheel_zoom [OF z] st)
qed

lemma zoom_out_closed_form:
  assumes "viewZoom s = Num 1" and "\<forall>e\<in>set es. \<not> js_lt (wheelDelta e) (Num 0)"
  shows "viewZoom (wheelEvents v es s) = Num (max (1 / 20) ((19 / 20) ^ length es))"
  using assms(2)
proof (induction es rule: rev_induct)
  case Nil
  from assms(1) show ?case by (simp add: wheelEvents_def)
next
  case (snoc e es)
  have a: "(0::rat) < (19 / 20) ^ length es" "((19 / 20) ^ length es :: rat) \<le> 1"
    by (simp_all add: power_le_one)
  from snoc have z: "viewZoom (wheelEvents v es s) = Num (max (1 / 20) ((19 / 20) ^ length es))"
    by simp
  from snoc.prems have st: "zoomStep e = 19 / 20" by (simp add: zoomStep_def)
  show ?case
    using clamp_zoom_out [OF a, of "19 / 20"]
    by (simp add: wheelEvents_snoc onMouseWheel_zoom [OF z] st)
qed

lemma zoom_in_saturates:
  assumes "62 \<le> n"
  shows "min 20 ((21 / 20 :: rat) ^ n) = 20"
proof -
  have "(21 / 20 :: rat) ^ 62 \<le> (21 / 20) ^ n"
    using assms by (intro power_increasing) simp_all
  moreover have "(20::rat) \<le> (21 / 20) ^ 62"
    by (simp add: power_divide)
  ultimately have "(20::rat) \<le> (21 / 20) ^ n" by (rule order_trans [rotated])
  then show ?thesis by (simp only: min_def) simp
qed

lemma zoom_out_saturates:
  assumes "59 \<le> n"
  shows "max (1 / 20) ((19 / 20 :: rat) ^ n) = 1 / 20"
proof -
  have "(19 / 20 :: rat) ^ n \<le> (19 / 20) ^ 59"
    using assms by (intro power_decreasing) simp_all
  moreover have "((19 / 20) ^ 59 :: rat) \<le> 1 / 20"
    by (simp add: power_divide)
  ultimately have "((19 / 20) ^ n :: rat) \<le> 1 / 20" by (rule order_trans)
  then show ?thesis by (simp only: max_def) simp
qed

lemma recenter:
  "viewCenter (onMouseWheel v e s) =
     subtract (v s (wheelPoint e))
       (multiply (subtract (v s (wheelPoint e)) (viewCenter s))
          (js_div (viewZoom s) (viewZoom (onMouseWheel v e s))))"
  by (simp add: onMouseWheel_def Let_def)

lemma recenter_num:
  assumes "viewZoom s = Num z" and "0 < z" and "viewCenter s = (Num cx, Num cy)"
    and "v s (wheelPoint e) = (Num mx, Num my)"
  defines "z' \<equiv> max (5 / 100) (min 20 (z * zoomStep e))"
  shows "viewCenter (onMouseWheel v e s) =
     (Num (mx - (mx - cx) * (z / z')), Num (my - (my - cy) * (z / z')))"
proof -
  have "0 < z'" by (simp add: z'_def max_def)
  then have "z' \<noteq> 0" by simp
  then show ?thesis
    using assms(1,3,4) onMouseWheel_zoom [OF assms(1), of v e]
    by (simp add: recenter subtract_def multiply_def js_sub_def z'_def)
qed


text \<open>
  Claim C8, as amended. From zoom 1, after any sequence of wheel events the zoom is a
  number between 0.05 and 20, and one more event multiplies it by 1.05 (when the
  event's delta is negative) or by 0.95 (otherwise) and clamps the product to that
  range. After 62 or more events that zoom in the zoom is 20; after 59 or more that
  zoom out it is 0.05. Every event moves the center to
  \<open>cursor - (cursor - oldCenter) * (oldZoom / newZoom)\<close>, the cursor being the event's
  point in project coordinates.
\<close>

theorem wheel_zoom_clamped:
  assumes "viewZoom s = Num 1"
  shows "(\<exists>z. viewZoom (wheelEvents v es s) = Num z \<and> 5 / 100 \<le> z \<and> z \<le> 20
          \<and> viewZoom (onMouseWheel v e (wheelEvents v es s)) =
              Num (max (5 / 100) (min 20 (z * zoomStep e))))
    \<and> ((\<forall>e\<in>set es. js_lt (wheelDelta e) (Num 0)) \<and> 62 \<le> length es \<longrightarrow>
         viewZoom (wheelEvents v es s) = Num 20)
    \<and> ((\<forall>e\<in>set es. \<not> js_lt (wheelDelta e) (Num 0)) \<and> 59 \<le> length es \<longrightarrow>
         viewZoom (wheelEvents v es s) = Num (5 / 100))
    \<and> viewCenter (onMouseWheel v e (wheelEvents v es s)) =
         subtract (v (wheelEvents v es s) (wheelPoint e))
           (multiply (subtract (v (wheelEvents v es s) (wheelPoint e))
                        (viewCenter (wheelEvents v es s)))
              (js_div (viewZoom (wheelEvents v es s))
                 (viewZoom (onMouseWheel v e (wheelEvents v es s)))))"
proof -
  have one: "(5 / 100 :: rat) \<le> 1" "(1 :: rat) \<le> 20" by simp_all
  from zoom_in_range [OF assms one, of v es]
  obtain z where z: "viewZoom (wheelEvents v es s) = Num z" "5 / 100 \<le> z" "z \<le> 20"
    by blast
  have step: "viewZoom (onMouseWheel v e (wheelEvents v es s)) =
      Num (max (5 / 100) (min 20 (z * zoomStep e)))"
    using z(1) by (rule onMouseWheel_zoom)
  have zin: "viewZoom (wheelEvents v es s) = Num 20"
    if "\<forall>e\<in>set es. js_lt (wheelDelta e) (Num 0)" and "62 \<le> length es"
    using zoom_in_closed_form [OF assms that(1), of v] zoom_in_saturates [OF that(2)] by simp
  have zout: "viewZoom (wheelEvents v es s) = Num (5 / 100)"
    if "\<forall>e\<in>set es. \<not> js_lt (wheelDelta e) (Num 0)" and "59 \<le> length es"
    using zoom_out_closed_form [OF assms that(1), of v] zoom_out_saturates [OF that(2)] by simp
  show ?thesis
    using z step zin zout recenter [of v e "wheelEvents v es s"] by blast
qed

theorem wheel_zoom_clamped_witness:
  "viewZoom exampleState = Num 1
   \<and> viewZoom (wheelEvents identityView (replicate 62 zoomInEvent) exampleState) = Num 20
   \<and> viewZoom (wheelEvents identityView (replicate 59 zoomOutEvent) exampleState) = Num (5 / 100)
   \<and> viewZoom (onMouseWheel identityView zoomOutEvent exampleState) = Num (95 / 100)
   \<and> viewCenter (onMouseWheel identityView zoomOutEvent exampleState) =
       (Num (8900 / 19), Num (5950 / 19))"
proof -
  have z: "viewZoom exampleState = Num 1"
    by (rule exampleState_fields)
  have i: "\<forall>e\<in>set (replicate 62 zoomInEvent). js_lt (wheelDelta e) (Num 0)"
    by (simp add: zoomInEvent_def js_lt_def)
  have out: "\<forall>e\<in>set (replicate 59 zoomOutEvent). \<not> js_lt (wheelDelta e) (Num 0)"
    by (simp add: zoomOutEvent_def js_lt_def)
  have a: "viewZoom (wheelEvents identityView (replicate 62 zoomInEvent) exampleState) = Num 20"
    using wheel_zoom_clamped [OF z, of identityView "replicate 62 zoomInEvent"] i by simp
  have b: "viewZoom (wheelEvents identityView (replicate 59 zoomOutEvent) exampleState) =
      Num (5 / 100)"
    using wheel_zoom_clamped [OF z, of identityView "replicate 59 zoomOutEvent"] out by simp
  have c: "viewZoom (onMouseWheel identityView zoomOutEvent exampleState) = Num (95 / 100)
     \<and> viewCenter (onMouseWheel identityView zoomOutEvent exampleState) =
       (Num (8900 / 19), Num (5950 / 19))"
    using wheel_zoom_clamped [OF z, of identityView "[]" zoomOutEvent]
    by (simp add: wheelEvents_def exampleState_fields zoomStep_def zoomOutEvent_def js_lt_def
        identityView_def subtract_def multiply_def js_sub_def)
  from z a b c show ?thesis by simp
qed

text \<open>
  An event that zooms out of zoom 1 gives 0.95: the zoom is neither multiplied nor
  divided by 1.05 (dividing would give 20/21).
\<close>

theorem wheel_zoom_out_counterexample:
  "viewZoom (onMouseWheel identityView zoomOutEvent exampleState) = Num (19 / 20)
   \<and> js_div (viewZoom exampleState) (Num (105 / 100)) = Num (20 / 21)
   \<and> viewZoom (onMouseWheel identityView zoomOutEvent exampleState) \<noteq>
       js_div (viewZoom exampleState) (Num (105 / 100))
   \<and> viewZoom (onMouseWheel identityView zoomOutEvent exampleState) \<noteq>
       js_mul (viewZoom exampleState) (Num (105 / 100))"
  by (simp add: onMouseWheel_zoom [OF exampleState_fields(6)] exampleState_fields
      zoomStep_def zoomOutEvent_def js_lt_def)

section \<open>What createPolygon does\<close>

lemma getIndex_error:
  "getIndex v i = Inl e \<longleftrightarrow> v = Null \<and> e = TypeError"
  by (cases v) auto

lemma projectCoords_error:
  "fst (projectCoords tr xs segs) = (if Null \<in> set xs then Some TypeError else None)"
proof (induction xs arbitrary: segs)
  case Nil
  show ?case by simp
next
  case (Cons v vs)
  show ?case
  proof (cases "v = Null")
    case True
    then show ?thesis by simp
  next
    case False
    then obtain x y where "getIndex v 0 = Inr x" "getIndex v 1 = Inr y"
      by (cases v) auto
    with False Cons show ?thesis by (simp add: Let_def)
  qed
qed

lemma logFirstCoordinate_ok:
  "logFirstCoordinate coords = None \<longleftrightarrow> (\<exists>x xs. coords = Arr (x # xs) \<and> x \<noteq> Null)"
proof (cases coords)
  case (Arr ys)
  show ?thesis
  proof (cases ys)
    case Nil
    with Arr show ?thesis by (simp add: logFirstCoordinate_def)
  next
    case (Cons x xs)
    with Arr show ?thesis
      by (cases x) (simp_all add: logFirstCoordinate_def)
  qed
qed (simp_all add: logFirstCoordinate_def)

lemma createPolygon_result:
  "createPolygon coords r g b s =
     (if polygonOk coords
      then (True, s\<lparr>polygonPaths := polygonPaths s @ [newPath s (case coords of Arr xs \<Rightarrow> xs) r g b],
                    calls := calls s @ [CreatePolygon]\<rparr>)
      else (False, s\<lparr>calls := calls s @ [CreatePolygon]\<rparr>))"
proof (cases "logFirstCoordinate coords")
  case None
  then obtain x xs where c: "coords = Arr (x # xs)" "x \<noteq> Null"
    by (auto simp: logFirstCoordinate_ok)
  obtain e segs where p: "projectCoords
      (computeTransform (gridColumns s) (gridRows s) (readTileSize s)) (x # xs) [] = (e, segs)"
    by (cases "projectCoords
      (computeTransform (gridColumns s) (gridRows s) (readTileSize s)) (x # xs) []")
  have e: "e = (if Null \<in> set (x # xs) then Some TypeError else None)"
    using projectCoords_error [of "computeTransform (gridColumns s) (gridRows s) (readTileSize s)"
        "x # xs" "[]"] p by simp
  show ?thesis
    using None c p e by (auto simp: createPolygon_def Let_def newPath_def)
next
  case (Some e)
  then have "\<not> polygonOk coords"
    using logFirstCoordinate_ok [of coords] by (cases coords rule: polygonOk.cases) auto
  with Some show ?thesis by (simp add: createPolygon_def Let_def)
qed

section \<open>What a load does, row by row\<close>

text \<open>\<open>JSON.parse\<close> is only given texts with no double quote.\<close>

lemma jsonCoords_no_quote:
  "CHR 0x22 \<notin> set (toJsonCoords (cleanCoords coordsStr))"
proof -
  have "set (trim s) \<subseteq> set s" for s
    by (auto simp: trim_def dest!: set_dropWhileD)
  from this [of "filter (\<lambda>c. c \<noteq> CHR 0x22) coordsStr"]
  have "CHR 0x22 \<notin> set (cleanCoords coordsStr)"
    unfolding cleanCoords_def by auto
  then show ?thesis
    by (auto simp: toJsonCoords_def)
qed

lemma newPath_frame:
  "newPath (s\<lparr>polygonPaths := ps, calls := cs\<rparr>) xs r g b = newPath s xs r g b"
  by (simp add: newPath_def readTileSize_frame)

lemma linePath_frame:
  "linePath (s\<lparr>polygonPaths := ps, calls := cs\<rparr>) ix line = linePath s ix line"
  by (simp add: linePath_def newPath_frame Let_def split: prod.splits)

text \<open>
  A round of either loop adds to the counts by the status of its line, pushes the
  line's path when the status is \<open>Accepted\<close>, and calls nothing but \<open>createPolygon\<close>.
\<close>

lemma rowBody_effect:
  assumes "\<not> length (parseCSVRowJS line) < hl"
  shows "\<exists>n. rowBody ix (parseCSVRowJS line) (p, e, s) =
     (p + (if lineStatus hl ix line = Accepted then 1 else 0),
      e + (if lineStatus hl ix line = Counted then 1 else 0),
      s\<lparr>polygonPaths := polygonPaths s @
            (if lineStatus hl ix line = Accepted then [linePath s ix line] else []),
        calls := calls s @ replicate n CreatePolygon\<rparr>)"
proof (cases "rowCoords ix (parseCSVRowJS line)")
  case (Inl err)
  with assms have "rowBody ix (parseCSVRowJS line) (p, e, s) = (p, e + 1, s)"
    "lineStatus hl ix line = Counted"
    by (simp_all add: rowBody_def lineStatus_def Let_def rowCoords_def)
  then show ?thesis by (intro exI [of _ 0]) simp
next
  case (Inr coords)
  show ?thesis
  proof (cases "\<exists>xs. coords = Arr xs \<and> length xs < 3")
    case True
    with assms Inr have "rowBody ix (parseCSVRowJS line) (p, e, s) = (p, e, s)"
      "lineStatus hl ix line = Skipped"
      by (auto simp: rowBody_def lineStatus_def Let_def rowCoords_def)
    then show ?thesis by (intro exI [of _ 0]) simp
  next
    case False
    show ?thesis
    proof (cases "coords = Null")
      case True
      with assms Inr have "rowBody ix (parseCSVRowJS line) (p, e, s) = (p, e + 1, s)"
        "lineStatus hl ix line = Counted"
        by (simp_all add: rowBody_def lineStatus_def Let_def rowCoords_def)
      then show ?thesis by (intro exI [of _ 0]) simp
    next
      case notNull: False
      obtain r g b where c: "rowColor ix (parseCSVRowJS line) = (r, g, b)"
        by (cases "rowColor ix (parseCSVRowJS line)")
      have len: "\<not> (case x of None \<Rightarrow> False | Some n \<Rightarrow> n < 3)"
        if "getLength coords = Inr x" for x
        using that False by (cases coords) auto
      have gl: "\<exists>x. getLength coords = Inr x"
        using notNull by (cases coords) auto
      have body: "rowBody ix (parseCSVRowJS line) (p, e, s) =
          (if polygonOk coords
           then (p + 1, e, s\<lparr>polygonPaths := polygonPaths s @
                    [newPath s (case coords of Arr xs \<Rightarrow> xs) r g b],
                  calls := calls s @ [CreatePolygon]\<rparr>)
           else (p, e + 1, s\<lparr>calls := calls s @ [CreatePolygon]\<rparr>))"
        using Inr gl len c
        by (auto simp: rowBody_def Let_def rowCoords_def [symmetric] rowColor_def [symmetric]
            createPolygon_result)
      have st: "lineStatus hl ix line = (if polygonOk coords then Accepted else Counted)"
        using assms Inr False notNull
        by (cases coords rule: polygonOk.cases) (auto simp: lineStatus_def Let_def)
      have lp: "polygonOk coords \<Longrightarrow>
          linePath s ix line = newPath s (case coords of Arr xs \<Rightarrow> xs) r g b"
        using Inr c by (cases coords rule: polygonOk.cases) (simp_all add: linePath_def Let_def)
      show ?thesis
        using body st lp by (intro exI [of _ 1]) auto
    qed
  qed
qed

lemma processRowFirst_effect:
  "\<exists>n. processRowFirst hl ix (p, e, s) line =
     (p + (if lineStatus hl ix line = Accepted then 1 else 0),
      e + (if lineStatus hl ix line = Counted then 1 else 0),
      s\<lparr>polygonPaths := polygonPaths s @
            (if lineStatus hl ix line = Accepted then [linePath s ix line] else []),
        calls := calls s @ replicate n CreatePolygon\<rparr>)"
proof (cases "length (parseCSVRowJS line) < hl")
  case True
  then have "processRowFirst hl ix (p, e, s) line = (p, e, s)" "lineStatus hl ix line = Skipped"
    by (simp_all add: processRowFirst_def lineStatus_def)
  then show ?thesis by (intro exI [of _ 0]) simp
next
  case False
  from rowBody_effect [OF this] show ?thesis
    using False by (simp add: processRowFirst_def)
qed

lemma processRowRest_first:
  "coordsIndex ix \<noteq> - 1 \<Longrightarrow> processRowRest hl ix acc line = processRowFirst hl ix acc line"
  by (simp add: processRowRest_def processRowFirst_def)

lemma foldl_processRowFirst:
  "\<exists>n. foldl (processRowFirst hl ix) (p, e, s) ls =
     (p + countStatus Accepted hl ix ls, e + countStatus Counted hl ix ls,
      s\<lparr>polygonPaths := polygonPaths s @
            map (linePath s ix) (filter (\<lambda>line. lineStatus hl ix line = Accepted) ls),
        calls := calls s @ replicate n CreatePolygon\<rparr>)"
proof (induction ls arbitrary: p e s)
  case Nil
  show ?case by (intro exI [of _ 0]) (simp add: countStatus_def)
next
  case (Cons line ls)
  let ?p1 = "p + (if lineStatus hl ix line = Accepted then 1 else 0)"
  let ?e1 = "e + (if lineStatus hl ix line = Counted then 1 else 0)"
  from processRowFirst_effect [of hl ix p e s line]
  obtain k where 1: "processRowFirst hl ix (p, e, s) line =
     (?p1, ?e1,
      s\<lparr>polygonPaths := polygonPaths s @
            (if lineStatus hl ix line = Accepted then [linePath s ix line] else []),
        calls := calls s @ replicate k CreatePolygon\<rparr>)" by blast
  let ?s1 = "s\<lparr>polygonPaths := polygonPaths s @
            (if lineStatus hl ix line = Accepted then [linePath s ix line] else []),
        calls := calls s @ replicate k CreatePolygon\<rparr>"
  from Cons [of ?p1 ?e1 ?s1]
  obtain n where 2: "foldl (processRowFirst hl ix) (?p1, ?e1, ?s1) ls =
     (?p1 + countStatus Accepted hl ix ls, ?e1 + countStatus Counted hl ix ls,
      ?s1\<lparr>polygonPaths := polygonPaths ?s1 @
            map (linePath ?s1 ix) (filter (\<lambda>line. lineStatus hl ix line = Accepted) ls),
        calls := calls ?s1 @ replicate n CreatePolygon\<rparr>)" by blast
  have 3: "linePath ?s1 ix = linePath s ix"
    by (rule ext) (rule linePath_frame)
  show ?case
    by (intro exI [of _ "k + n"])
      (simp add: 1 2 3 countStatus_def replicate_add del: replicate.simps)
qed

lemma foldl_processRowRest:
  "coordsIndex ix \<noteq> - 1 \<Longrightarrow>
   foldl (processRowRest hl ix) acc ls = foldl (processRowFirst hl ix) acc ls"
  by (induction ls arbitrary: acc) (simp_all add: processRowRest_first)

text \<open>The whole of a load that finds its coordinates column.\<close>

lemma loadLines_effect:
  assumes "2 \<le> length (csvLines csv)" and "coordsIndex (csvColumns csv) \<noteq> - 1"
  shows "\<exists>n. loadLines csv s =
     (Finished (countStatus Accepted (length (csvHeader csv)) (csvColumns csv) (tl (csvLines csv)))
        (countStatus Counted (length (csvHeader csv)) (csvColumns csv) (tl (csvLines csv))),
      s\<lparr>polygonPaths := polygonPaths s @
            map (linePath s (csvColumns csv))
              (filter (\<lambda>line. lineStatus (length (csvHeader csv)) (csvColumns csv) line = Accepted)
                 (tl (csvLines csv))),
        calls := calls s @ replicate n CreatePolygon\<rparr>)"
proof -
  let ?ls = "csvLines csv" and ?hl = "length (csvHeader csv)" and ?ix = "csvColumns csv"
  have "foldl (processRowRest ?hl ?ix) (foldl (processRowFirst ?hl ?ix) (0, 0, s) (take 5 (drop 1 ?ls)))
          (drop 6 ?ls) =
        foldl (processRowFirst ?hl ?ix) (0, 0, s) (take 5 (drop 1 ?ls) @ drop 6 ?ls)"
    using assms(2) by (simp add: foldl_processRowRest)
  also have "take 5 (drop 1 ?ls) @ drop 6 ?ls = tl ?ls"
  proof -
    have "drop 6 ?ls = drop 5 (drop 1 ?ls)" by simp
    then have "take 5 (drop 1 ?ls) @ drop 6 ?ls = drop 1 ?ls"
      by (simp only: append_take_drop_id)
    then show ?thesis by (simp add: drop_Suc)
  qed
  finally have f: "foldl (processRowRest ?hl ?ix)
      (foldl (processRowFirst ?hl ?ix) (0, 0, s) (take 5 (drop 1 ?ls))) (drop 6 ?ls) =
      foldl (processRowFirst ?hl ?ix) (0, 0, s) (tl ?ls)" .
  from foldl_processRowFirst [of ?hl ?ix 0 0 s "tl ?ls"]
  obtain n where "foldl (processRowFirst ?hl ?ix) (0, 0, s) (tl ?ls) =
     (countStatus Accepted ?hl ?ix (tl ?ls), countStatus Counted ?hl ?ix (tl ?ls),
      s\<lparr>polygonPaths := polygonPaths s @
            map (linePath s ?ix) (filter (\<lambda>line. lineStatus ?hl ?ix line = Accepted) (tl ?ls)),
        calls := calls s @ replicate n CreatePolygon\<rparr>)"
    by auto
  with f assms show ?thesis
    by (intro exI [of _ n])
      (simp add: loadLines_def Let_def csvLines_def [symmetric] csvHeader_def [symmetric]
        csvColumns_def [symmetric] del: One_nat_def)
qed

text \<open>A load that stops before its first row leaves the state as it is.\<close>

lemma loadLines_aborts:
  "length (csvLines csv) < 2 \<Longrightarrow> loadLines csv s = (NotEnoughLines, s)"
  "2 \<le> length (csvLines csv) \<Longrightarrow> coordsIndex (csvColumns csv) = - 1 \<Longrightarrow>
     loadLines csv s = (NoCoordinatesColumn, s)"
  by (simp_all add: loadLines_def Let_def csvLines_def [symmetric] csvHeader_def [symmetric]
        csvColumns_def [symmetric] del: One_nat_def)

section \<open>The four-column loader\<close>

text \<open>The loop over the pieces computes the valid pairs of the pieces not yet read.\<close>

lemma pairLoop_pairs:
  "pairLoop k coordPairs coords =
     coords @ map (\<lambda>(a, b). Arr [Number (parseFloat (trim a)), Number (parseFloat (trim b))])
       (filter (\<lambda>(a, b). parseFloat (trim a) \<noteq> NaN \<and> parseFloat (trim b) \<noteq> NaN)
          (pairUp (drop k coordPairs)))"
proof (induction k coordPairs coords rule: pairLoop.induct)
  case (1 k coordPairs coords)
  show ?case
  proof (cases "k < length coordPairs")
    case False
    then show ?thesis by (subst pairLoop.simps) simp
  next
    case True
    show ?thesis
    proof (cases "k + 1 < length coordPairs")
      case False
      with True have "drop k coordPairs = [coordPairs ! k]"
        by (metis Cons_nth_drop_Suc Suc_eq_plus1 drop_all not_less)
      moreover have "drop (k + 2) coordPairs = []"
        using False by simp
      ultimately show ?thesis
        using True False "1.IH"(3) by (subst pairLoop.simps) simp
    next
      case k1: True
      have d: "drop k coordPairs = coordPairs ! k # coordPairs ! (k + 1) # drop (k + 2) coordPairs"
        using True k1 by (metis Cons_nth_drop_Suc Suc_eq_plus1 add_2_eq_Suc')
      show ?thesis
      proof (cases "parseFloat (trim (coordPairs ! k)) \<noteq> NaN
          \<and> parseFloat (trim (coordPairs ! (k + 1))) \<noteq> NaN")
        case valid: True
        then show ?thesis
          using True k1 "1.IH"(1) [OF True k1 refl refl] d
          by (subst pairLoop.simps) (simp add: Let_def)
      next
        case invalid: False
        then show ?thesis
          using True k1 "1.IH"(2) [OF True k1 refl refl] d
          by (subst pairLoop.simps) (auto simp: Let_def)
      qed
    qed
  qed
qed

lemma pairLoop_validPairs:
  "pairLoop 0 (split CHR '','' (filter (\<lambda>c. c \<noteq> CHR ''('' \<and> c \<noteq> CHR '')'') polygonStr)) [] =
     validPairs polygonStr"
  by (simp add: pairLoop_pairs validPairs_def)

lemma validPairs_polygonOk:
  "3 \<le> length (validPairs polygonStr) \<Longrightarrow> polygonOk (Arr (validPairs polygonStr))"
  by (cases "validPairs polygonStr") (auto simp: validPairs_def)

lemma processFixedRow_effect:
  "processFixedRow (n, s) row =
     (if fixedRowAccepted row
      then (n + 1, s\<lparr>polygonPaths := polygonPaths s @ [fixedPath s row],
                     calls := calls s @ [CreatePolygon]\<rparr>)
      else (n, s))"
  by (auto simp: processFixedRow_def Let_def pairLoop_validPairs fixedRowAccepted_def
      createPolygon_result validPairs_polygonOk fixedPath_def fixedColor_def)

lemma fixedPath_frame:
  "fixedPath (s\<lparr>polygonPaths := ps, calls := cs\<rparr>) row = fixedPath s row"
  by (simp add: fixedPath_def newPath_frame Let_def split: prod.splits)

lemma foldl_processFixedRow:
  "foldl processFixedRow (n, s) rows =
     (n + length (filter fixedRowAccepted rows),
      s\<lparr>polygonPaths := polygonPaths s @ map (fixedPath s) (filter fixedRowAccepted rows),
        calls := calls s @ replicate (length (filter fixedRowAccepted rows)) CreatePolygon\<rparr>)"
proof (induction rows arbitrary: n s)
  case Nil
  show ?case by simp
next
  case (Cons row rows)
  have f: "fixedPath (s\<lparr>polygonPaths := ps, calls := cs\<rparr>) = fixedPath s" for ps cs
    by (rule ext) (rule fixedPath_frame)
  show ?case
    by (simp add: processFixedRow_effect Cons f replicate_append_same)
qed

lemma loadCSV_fixed_effect:
  "loadCSV_fixed csvText s =
     (length (filter fixedRowAccepted (parseCSVRowJS_text csvText)),
      s\<lparr>polygonPaths := polygonPaths s @
            map (fixedPath s) (filter fixedRowAccepted (parseCSVRowJS_text csvText)),
        calls := calls s @
            replicate (length (filter fixedRowAccepted (parseCSVRowJS_text csvText)))
              CreatePolygon\<rparr>)"
  by (simp add: loadCSV_fixed_def foldl_processFixedRow)

section \<open>Finding the coordinates column\<close>

lemma findColumns_coordsIndex:
  "0 \<le> i \<Longrightarrow>
   coordsIndex (findColumns header i ix) = - 1 \<longleftrightarrow>
     coordsIndex ix = - 1 \<and> (\<forall>name\<in>set header. \<not> isCoordsName name)"
proof (induction header arbitrary: i ix)
  case Nil
  show ?case by simp
next
  case (Cons name rest)
  from Cons.prems have "0 \<le> i + 1" by simp
  from Cons.IH [OF this] Cons.prems show ?case
    by (auto simp: Let_def isCoordsName_def)
qed

lemma csvColumns_none:
  "coordsIndex (csvColumns csv) = - 1 \<longleftrightarrow> (\<forall>name\<in>set (csvHeader csv). \<not> isCoordsName name)"
  by (simp add: csvColumns_def findColumns_coordsIndex)

section \<open>What the triggers call\<close>

lemma loadLines_frame:
  "\<exists>ps n. snd (loadLines csv s) =
     s\<lparr>polygonPaths := polygonPaths s @ ps, calls := calls s @ replicate n CreatePolygon\<rparr>"
proof (cases "2 \<le> length (csvLines csv)")
  case False
  then have "loadLines csv s = (NotEnoughLines, s)"
    by (simp add: loadLines_aborts)
  then show ?thesis by (intro exI [of _ "[]"] exI [of _ 0]) simp
next
  case True
  show ?thesis
  proof (cases "coordsIndex (csvColumns csv) = - 1")
    case True
    with \<open>2 \<le> length (csvLines csv)\<close> have "loadLines csv s = (NoCoordinatesColumn, s)"
      by (simp add: loadLines_aborts)
    then show ?thesis by (intro exI [of _ "[]"] exI [of _ 0]) simp
  next
    case False
    from loadLines_effect [OF True False, of s]
    obtain n where "snd (loadLines csv s) =
      s\<lparr>polygonPaths := polygonPaths s @
            map (linePath s (csvColumns csv))
              (filter (\<lambda>line. lineStatus (length (csvHeader csv)) (csvColumns csv) line = Accepted)
                 (tl (csvLines csv))),
        calls := calls s @ replicate n CreatePolygon\<rparr>"
      by auto
    then show ?thesis by blast
  qed
qed

lemma load_calls:
  "\<exists>n. calls (snd (loadCSV_append csv s)) = calls s @ replicate n CreatePolygon"
  "\<exists>n. calls (snd (loadCSV_replace csv s)) = calls s @ ClearPolygons # replicate n CreatePolygon"
  "\<exists>n. calls (snd (loadCSV_fixed csvText s)) = calls s @ replicate n CreatePolygon"
proof -
  from loadLines_frame [of csv s]
  show "\<exists>n. calls (snd (loadCSV_append csv s)) = calls s @ replicate n CreatePolygon"
    by (auto simp: loadCSV_append_def)
  from loadLines_frame [of csv "clearPolygons s"]
  show "\<exists>n. calls (snd (loadCSV_replace csv s)) = calls s @ ClearPolygons # replicate n CreatePolygon"
    by (auto simp: loadCSV_replace_def clearPolygons_def)
  show "\<exists>n. calls (snd (loadCSV_fixed csvText s)) = calls s @ replicate n CreatePolygon"
    by (simp add: loadCSV_fixed_effect)
qed

text \<open>
  The handler of the tile size input calls \<open>drawGrid\<close> and nothing else: the polygons
  keep the segments they had.
\<close>

lemma updateGrid_draws_only:
  "calls (updateGrid s) = calls s @ [DrawGrid (readTileSize s)]"
  "polygonPaths (updateGrid s) = polygonPaths s"
  by (simp_all add: updateGrid_def drawGrid_fields)

lemma syncPerformed_creates:
  "\<not> syncPerformed (replicate n CreatePolygon)"
  by (induction n) simp_all

text \<open>
  Claim C2, as amended. \<open>addColumn\<close> and \<open>addRow\<close>, and \<open>removeColumn\<close> and \<open>removeRow\<close>
  above the floor, call \<open>drawGrid\<close> with the tile size of the input and then
  \<open>updatePolygonPositions\<close>, in this order and nothing else; at the floor the last two
  call nothing. A load calls neither: it calls \<open>createPolygon\<close> once for every row
  that gets that far (after \<open>clearPolygons\<close>, in the loader that replaces), and
  \<open>createPolygon\<close> computes the transform of the current grid itself.
\<close>

theorem grid_triggers_rebuild_then_reproject:
  "calls (snd (addColumn s)) = calls s @ [DrawGrid (readTileSize s), UpdatePolygonPositions]
   \<and> calls (snd (addRow s)) = calls s @ [DrawGrid (readTileSize s), UpdatePolygonPositions]
   \<and> calls (snd (removeColumn s)) =
       (if gridColumns s > 1 then calls s @ [DrawGrid (readTileSize s), UpdatePolygonPositions]
        else calls s)
   \<and> calls (snd (removeRow s)) =
       (if gridRows s > 1 then calls s @ [DrawGrid (readTileSize s), UpdatePolygonPositions]
        else calls s)
   \<and> (\<exists>n. calls (snd (loadCSV_append csv s)) = calls s @ replicate n CreatePolygon)
   \<and> (\<exists>n. calls (snd (loadCSV_replace csv s)) =
             calls s @ ClearPolygons # replicate n CreatePolygon)
   \<and> (\<exists>n. calls (snd (loadCSV_fixed csv s)) = calls s @ replicate n CreatePolygon)"
  using load_calls [of csv s]
  by (simp add: addColumn_def removeColumn_def addRow_def removeRow_def
      updatePolygonPositions_state drawGrid_fields readTileSize_frame Let_def)

theorem grid_triggers_rebuild_then_reproject_witness:
  "calls (snd (addColumn polygonState)) =
     [DrawGrid (Num 300), CreatePolygon, DrawGrid (Num 300), UpdatePolygonPositions]
   \<and> calls (snd (removeRow polygonState)) =
     [DrawGrid (Num 300), CreatePolygon, DrawGrid (Num 300), UpdatePolygonPositions]
   \<and> calls (snd (removeColumn floorState)) = calls floorState
   \<and> (\<exists>n. calls (snd (loadCSV_replace exampleCsv polygonState)) =
        [DrawGrid (Num 300), CreatePolygon, ClearPolygons] @ replicate n CreatePolygon)"
proof -
  have c: "calls polygonState = [DrawGrid (Num 300), CreatePolygon]"
    by (simp add: polygonState_def createPolygon_result exampleState_fields)
  have f: "gridColumns floorState = 1"
    by (rule floorState_grid)
  from grid_triggers_rebuild_then_reproject [of polygonState exampleCsv]
    grid_triggers_rebuild_then_reproject [of floorState exampleCsv]
  show ?thesis
    by (simp add: c f polygonState_fields)
qed

text \<open>
  Loading the example file into the page as it starts calls \<open>createPolygon\<close> only:
  no \<open>drawGrid\<close> followed by \<open>updatePolygonPositions\<close> is among the calls of the load.
\<close>

theorem load_performs_no_sync_counterexample:
  "\<not> syncPerformed (drop (length (calls exampleState))
        (calls (snd (loadCSV_append exampleCsv exampleState))))"
proof -
  from load_calls(1) [of exampleCsv exampleState]
  obtain n where "calls (snd (loadCSV_append exampleCsv exampleState)) =
      calls exampleState @ replicate n CreatePolygon" by blast
  then show ?thesis by (simp add: syncPerformed_creates)
qed

section \<open>The example files\<close>

lemma countStatus_map:
  "countStatus st hl ix ls = length (filter (\<lambda>x. x = st) (map (lineStatus hl ix) ls))"
  by (simp add: countStatus_def filter_map comp_def)

lemma exampleCsv_lines:
  "csvLines exampleCsv =
     [''id,polygon_coords,color_r,color_g,color_b'',
      ''1,'' @ quoted ''[(0, 0), (300, 0), (0, 300)]'' @ '',0.5,0.5,0.5'',
      ''2,'' @ quoted ''[(0, 0), (300, 0), (0, 300)]'' @ '',0,0,0'',
      ''3,'' @ quoted ''[(0, 0), (300, 0), (0, 300'' @ '',10,200,30'',
      ''4,'' @ quoted ''[(0, 0), (300, 0), (0, 300)]'' @ '',10,200,30'',
      ''5,'' @ quoted ''[(0, 0), (300, 0), (0, 300)]'' @ '',10,200,30'']"
  by code_simp

lemma exampleCsv_header:
  "length (csvHeader exampleCsv) = 5"
  "\<exists>name\<in>set (csvHeader exampleCsv). isCoordsName name"
  "csvColumns exampleCsv =
     \<lparr> coordsIndex = 1, colorRIndex = 2, colorGIndex = 3, colorBIndex = 4 \<rparr>"
  by code_simp+

lemma exampleCsv_status:
  "map (lineStatus 5 \<lparr> coordsIndex = 1, colorRIndex = 2, colorGIndex = 3, colorBIndex = 4 \<rparr>)
     (tl (csvLines exampleCsv)) = [Accepted, Accepted, Counted, Accepted, Accepted]"
  by code_simp

lemma rejectingCsv_header:
  "length (csvLines rejectingCsv) = 6"
  "\<exists>name\<in>set (csvHeader rejectingCsv). isCoordsName name"
  "length (csvHeader rejectingCsv) = 5"
  "csvColumns rejectingCsv =
     \<lparr> coordsIndex = 1, colorRIndex = 2, colorGIndex = 3, colorBIndex = 4 \<rparr>"
  by code_simp+

lemma rejectingCsv_status:
  "map (lineStatus 5 \<lparr> coordsIndex = 1, colorRIndex = 2, colorGIndex = 3, colorBIndex = 4 \<rparr>)
     (tl (csvLines rejectingCsv)) = [Accepted, Accepted, Skipped, Skipped, Accepted]"
  by code_simp

lemma exampleCsv_colors:
  "map (\<lambda>line. rowColor \<lparr> coordsIndex = 1, colorRIndex = 2, colorGIndex = 3, colorBIndex = 4 \<rparr>
         (parseCSVRowJS line)) (tl (csvLines exampleCsv)) =
     [(Num 127, Num 127, Num 127), (Num 255, Num 255, Num 255), (Num 10, Num 200, Num 30),
      (Num 10, Num 200, Num 30), (Num 10, Num 200, Num 30)]"
  by code_simp


lemma fixedCsv_accepted:
  "filter fixedRowAccepted (parseCSVRowJS_text fixedCsv) =
     [[''(0, 0), (300, 0), (0, 300)'', ''0.5'', ''0.5'', ''0.5''],
      [''(0, 0), (300, 0), (0, 300)'', ''0'', ''0'', ''0''],
      [''(0, 0), (300, 0), (0, 300), 7'', ''10'', ''200'', ''30''],
      [''(0, 0), (300, 0), (a, 300), (1, 1)'', ''10'', ''200'', ''30'']]"
  by code_simp

lemma fixedCsv_pairs:
  "map (\<lambda>row. validPairs (row ! 0)) (parseCSVRowJS_text fixedCsv) =
     [[Arr [Number (Num 0), Number (Num 0)], Arr [Number (Num 300), Number (Num 0)],
       Arr [Number (Num 0), Number (Num 300)]],
      [Arr [Number (Num 0), Number (Num 0)], Arr [Number (Num 300), Number (Num 0)],
       Arr [Number (Num 0), Number (Num 300)]],
      [Arr [Number (Num 0), Number (Num 0)], Arr [Number (Num 0), Number (Num 300)]],
      [Arr [Number (Num 0), Number (Num 0)], Arr [Number (Num 300), Number (Num 0)],
       Arr [Number (Num 0), Number (Num 300)]],
      [Arr [Number (Num 0), Number (Num 0)], Arr [Number (Num 300), Number (Num 0)],
       Arr [Number (Num 1), Number (Num 1)]]]"
  by code_simp


lemma headlessCsv_header:
  "length (csvLines headlessCsv) = 2"
  "\<forall>name\<in>set (csvHeader headlessCsv). \<not> isCoordsName name"
  "map isCoordsName (csvHeader headlessCsv) = [False, False, False, False, False]"
  by code_simp+

section \<open>Which rows a load counts\<close>

lemma countStatus_total:
  "countStatus Accepted hl ix ls + countStatus Counted hl ix ls + countStatus Skipped hl ix ls =
     length ls"
proof (induction ls)
  case Nil
  show ?case by (simp add: countStatus_def)
next
  case (Cons line ls)
  then show ?case
    by (cases "lineStatus hl ix line") (simp_all add: countStatus_def)
qed

lemma lineStatus_Counted:
  "lineStatus hl ix line = Counted \<longleftrightarrow>
     hl \<le> length (parseCSVRowJS line)
     \<and> (case rowCoords ix (parseCSVRowJS line) of
          Inl e \<Rightarrow> True
        | Inr (Arr xs) \<Rightarrow> 3 \<le> length xs \<and> Null \<in> set xs
        | Inr v \<Rightarrow> True)"
  by (auto simp: lineStatus_def Let_def split: sum.splits jsval.splits)

lemma lineStatus_Skipped:
  "lineStatus hl ix line = Skipped \<longleftrightarrow>
     length (parseCSVRowJS line) < hl
     \<or> (\<exists>xs. rowCoords ix (parseCSVRowJS line) = Inr (Arr xs) \<and> length xs < 3)"
  by (auto simp: lineStatus_def Let_def split: sum.splits jsval.splits)

lemma load_outcome:
  assumes "2 \<le> length (csvLines csv)" and "\<exists>name\<in>set (csvHeader csv). isCoordsName name"
  shows "fst (loadLines csv s) =
     Finished (countStatus Accepted (length (csvHeader csv)) (csvColumns csv) (tl (csvLines csv)))
       (countStatus Counted (length (csvHeader csv)) (csvColumns csv) (tl (csvLines csv)))"
proof -
  from assms(2) have "coordsIndex (csvColumns csv) \<noteq> - 1"
    by (simp add: csvColumns_none)
  from loadLines_effect [OF assms(1) this, of s] show ?thesis by auto
qed

text \<open>
  Claim C5, as amended. A load with a header that names a coordinates column reports
  how many of the lines after the header became polygons and how many were counted as
  errors, whatever the other lines are: every line is accepted, counted or skipped on
  its own. A line is counted when it has the header's number of fields and its
  coordinate field does not parse, or parses to something that is no array, or to an
  array of three or more elements one of which is \<open>null\<close>. A line with fewer fields
  than the header, or whose array has fewer than three elements, is skipped and not
  counted. The four-column loader reports the number of polygons loaded and has no
  count of errors.
\<close>

theorem load_counts:
  assumes "2 \<le> length (csvLines csv)" and "\<exists>name\<in>set (csvHeader csv). isCoordsName name"
  defines "hl \<equiv> length (csvHeader csv)" and "ix \<equiv> csvColumns csv"
    and "rows \<equiv> tl (csvLines csv)"
  shows "fst (loadCSV_append csv s) =
       Finished (countStatus Accepted hl ix rows) (countStatus Counted hl ix rows)
    \<and> fst (loadCSV_replace csv s) =
       Finished (countStatus Accepted hl ix rows) (countStatus Counted hl ix rows)
    \<and> countStatus Accepted hl ix rows + countStatus Counted hl ix rows
        + countStatus Skipped hl ix rows = length rows
    \<and> (\<forall>line. lineStatus hl ix line = Counted \<longleftrightarrow>
          hl \<le> length (parseCSVRowJS line)
          \<and> (case rowCoords ix (parseCSVRowJS line) of
               Inl e \<Rightarrow> True
             | Inr (Arr xs) \<Rightarrow> 3 \<le> length xs \<and> Null \<in> set xs
             | Inr v \<Rightarrow> True))
    \<and> (\<forall>line. lineStatus hl ix line = Skipped \<longleftrightarrow>
          length (parseCSVRowJS line) < hl
          \<or> (\<exists>xs. rowCoords ix (parseCSVRowJS line) = Inr (Arr xs) \<and> length xs < 3))
    \<and> fst (loadCSV_fixed csvText s) =
        length (filter fixedRowAccepted (parseCSVRowJS_text csvText))"
  unfolding hl_def ix_def rows_def
  using load_outcome [OF assms(1,2)] countStatus_total lineStatus_Counted lineStatus_Skipped
  by (simp add: loadCSV_append_def loadCSV_replace_def loadCSV_fixed_effect)

theorem load_counts_witness:
  "2 \<le> length (csvLines exampleCsv)
   \<and> (\<exists>name\<in>set (csvHeader exampleCsv). isCoordsName name)
   \<and> fst (loadCSV_append exampleCsv exampleState) = Finished 4 1
   \<and> fst (loadCSV_replace exampleCsv exampleState) = Finished 4 1
   \<and> fst (loadCSV_fixed fixedCsv exampleState) = 4"
proof -
  have l: "2 \<le> length (csvLines exampleCsv)"
    by (simp add: exampleCsv_lines)
  note h = exampleCsv_header(2)
  have c: "countStatus Accepted 5
        \<lparr> coordsIndex = 1, colorRIndex = 2, colorGIndex = 3, colorBIndex = 4 \<rparr>
        (tl (csvLines exampleCsv)) = 4"
    "countStatus Counted 5
        \<lparr> coordsIndex = 1, colorRIndex = 2, colorGIndex = 3, colorBIndex = 4 \<rparr>
        (tl (csvLines exampleCsv)) = 1"
    by (simp_all add: countStatus_map exampleCsv_status)
  from load_counts [OF l h, where s = exampleState and csvText = fixedCsv] l h show ?thesis
    by (simp add: exampleCsv_header c fixedCsv_accepted)
qed

text \<open>
  Five rows after the header: the third has two vertices and the fourth two fields.
  Neither becomes a polygon, and the load reports three polygons and no error.
\<close>

theorem rejected_rows_uncounted_counterexample:
  "fst (loadCSV_append rejectingCsv exampleState) = Finished 3 0
   \<and> map (lineStatus (length (csvHeader rejectingCsv)) (csvColumns rejectingCsv))
       (tl (csvLines rejectingCsv)) = [Accepted, Accepted, Skipped, Skipped, Accepted]"
proof -
  have l: "2 \<le> length (csvLines rejectingCsv)"
    by (simp add: rejectingCsv_header)
  have c: "countStatus Accepted 5
        \<lparr> coordsIndex = 1, colorRIndex = 2, colorGIndex = 3, colorBIndex = 4 \<rparr>
        (tl (csvLines rejectingCsv)) = 3"
    "countStatus Counted 5
        \<lparr> coordsIndex = 1, colorRIndex = 2, colorGIndex = 3, colorBIndex = 4 \<rparr>
        (tl (csvLines rejectingCsv)) = 0"
    by (simp_all add: countStatus_map rejectingCsv_status)
  from load_outcome [OF l rejectingCsv_header(2), of exampleState] show ?thesis
    by (simp add: loadCSV_append_def rejectingCsv_header c rejectingCsv_status)
qed

section \<open>The color of a loaded polygon\<close>











section \<open>A header with no coordinates column\<close>

text \<open>
  Claim C6, as amended. When no name of the header is taken for the coordinates
  column, the load stops before its first row and adds no polygon of the file. The
  loader that appends leaves the whole state as it was. The loader that replaces has
  called \<open>clearPolygons\<close> before it looks at the header: it leaves the state as
  \<open>clearPolygons\<close> made it, with no polygon at all.
\<close>

theorem missing_coordinates_column:
  assumes "2 \<le> length (csvLines csv)" and "\<forall>name\<in>set (csvHeader csv). \<not> isCoordsName name"
  shows "loadCSV_append csv s = (NoCoordinatesColumn, s)
    \<and> loadCSV_replace csv s = (NoCoordinatesColumn, clearPolygons s)
    \<and> polygonPaths (snd (loadCSV_replace csv s)) = []"
proof -
  from assms(2) have "coordsIndex (csvColumns csv) = - 1"
    by (simp add: csvColumns_none)
  with assms(1) show ?thesis
    by (simp add: loadCSV_append_def loadCSV_replace_def loadLines_aborts clearPolygons_def)
qed

theorem missing_coordinates_column_witness:
  "2 \<le> length (csvLines headlessCsv)
   \<and> map isCoordsName (csvHeader headlessCsv) = [False, False, False, False, False]
   \<and> loadCSV_append headlessCsv polygonState = (NoCoordinatesColumn, polygonState)
   \<and> fst (loadCSV_replace headlessCsv polygonState) = NoCoordinatesColumn
   \<and> polygonPaths (snd (loadCSV_replace headlessCsv polygonState)) = []"
proof -
  have l: "2 \<le> length (csvLines headlessCsv)"
    by (simp add: headlessCsv_header)
  note h = headlessCsv_header(2)
  from missing_coordinates_column [OF l h, of polygonState] l show ?thesis
    by (simp add: clearPolygons_def headlessCsv_header(3))
qed

text \<open>
  The page holds a triangle; the loader that replaces is given a file whose header
  names no coordinates column. The load fails, and the triangle is gone.
\<close>

theorem replace_clears_before_header_counterexample:
  "fst (loadCSV_replace headlessCsv polygonState) = NoCoordinatesColumn
   \<and> length (polygonPaths polygonState) = 1
   \<and> polygonPaths (snd (loadCSV_replace headlessCsv polygonState)) = []
   \<and> polygonPaths (snd (loadCSV_replace headlessCsv polygonState)) \<noteq> polygonPaths polygonState"
proof -
  have l: "2 \<le> length (csvLines headlessCsv)"
    by (simp add: headlessCsv_header)
  have "coordsIndex (csvColumns headlessCsv) = - 1"
    using headlessCsv_header(2) by (simp add: csvColumns_none)
  with l show ?thesis
    by (simp add: loadCSV_replace_def loadLines_aborts clearPolygons_def polygonState_paths)
qed

section \<open>The vertices the four-column loader keeps\<close>

lemma fixedPath_originalCoords:
  "originalCoords (fixedPath s row) = validPairs (row ! 0)"
  by (simp add: fixedPath_def newPath_def Let_def split: prod.splits)

text \<open>
  Claim C10. In the four-column loader the loop over the pieces of the coordinate
  field gives the pairs of consecutive pieces of which both parse to a number: a pair
  with a piece that does not parse is dropped, and so is a piece left alone at the
  end. A row of four fields or more becomes a polygon, with these pairs as its world
  vertices, exactly when three pairs or more remain; it then adds one to the number of
  polygons loaded, which is all the loader reports.
\<close>

theorem fixed_loader_keeps_valid_pairs:
  "pairLoop 0 (split CHR '','' (filter (\<lambda>c. c \<noteq> CHR ''('' \<and> c \<noteq> CHR '')'') polygonStr)) [] =
     validPairs polygonStr
   \<and> processFixedRow (n, s) row =
       (if 4 \<le> length row \<and> 3 \<le> length (validPairs (row ! 0))
        then (n + 1, s\<lparr>polygonPaths := polygonPaths s @ [fixedPath s row],
                       calls := calls s @ [CreatePolygon]\<rparr>)
        else (n, s))
   \<and> originalCoords (fixedPath s row) = validPairs (row ! 0)
   \<and> fst (loadCSV_fixed csvText s) =
       length (filter fixedRowAccepted (parseCSVRowJS_text csvText))
   \<and> map originalCoords (polygonPaths (snd (loadCSV_fixed csvText s))) =
       map originalCoords (polygonPaths s) @
       map (\<lambda>row. validPairs (row ! 0)) (filter fixedRowAccepted (parseCSVRowJS_text csvText))"
  using processFixedRow_effect [of n s row]
  by (simp add: pairLoop_validPairs fixedRowAccepted_def fixedPath_originalCoords
      loadCSV_fixed_effect comp_def)

lemma fixedCsv_kept:
  "map (\<lambda>row. validPairs (row ! 0)) (filter fixedRowAccepted (parseCSVRowJS_text fixedCsv)) =
     [[Arr [Number (Num 0), Number (Num 0)], Arr [Number (Num 300), Number (Num 0)],
       Arr [Number (Num 0), Number (Num 300)]],
      [Arr [Number (Num 0), Number (Num 0)], Arr [Number (Num 300), Number (Num 0)],
       Arr [Number (Num 0), Number (Num 300)]],
      [Arr [Number (Num 0), Number (Num 0)], Arr [Number (Num 300), Number (Num 0)],
       Arr [Number (Num 0), Number (Num 300)]],
      [Arr [Number (Num 0), Number (Num 0)], Arr [Number (Num 300), Number (Num 0)],
       Arr [Number (Num 1), Number (Num 1)]]]"
  by code_simp

lemma fixedCsv_third:
  "validPairs ''(0, 0), (300, x), (0, 300)'' =
     [Arr [Number (Num 0), Number (Num 0)], Arr [Number (Num 0), Number (Num 300)]]"
  by code_simp

theorem fixed_loader_keeps_valid_pairs_witness:
  "fst (loadCSV_fixed fixedCsv exampleState) = 4
   \<and> map originalCoords (polygonPaths (snd (loadCSV_fixed fixedCsv exampleState))) =
     [[Arr [Number (Num 0), Number (Num 0)], Arr [Number (Num 300), Number (Num 0)],
       Arr [Number (Num 0), Number (Num 300)]],
      [Arr [Number (Num 0), Number (Num 0)], Arr [Number (Num 300), Number (Num 0)],
       Arr [Number (Num 0), Number (Num 300)]],
      [Arr [Number (Num 0), Number (Num 0)], Arr [Number (Num 300), Number (Num 0)],
       Arr [Number (Num 0), Number (Num 300)]],
      [Arr [Number (Num 0), Number (Num 0)], Arr [Number (Num 300), Number (Num 0)],
       Arr [Number (Num 1), Number (Num 1)]]]
   \<and> processFixedRow (2, exampleState) [''(0, 0), (300, x), (0, 300)'', ''10'', ''200'', ''30''] =
       (2, exampleState)"
  using fixed_loader_keeps_valid_pairs [of _ 2 exampleState
      "[''(0, 0), (300, x), (0, 300)'', ''10'', ''200'', ''30'']" fixedCsv]
  by (simp add: fixedCsv_accepted [THEN arg_cong, of length] fixedCsv_kept fixedCsv_third
      exampleState_fields)

section \<open>The grid keeps a column and a row\<close>

lemma load_grid:
  "gridColumns (snd (loadCSV_replace csv s)) = gridColumns s"
  "gridRows (snd (loadCSV_replace csv s)) = gridRows s"
  "gridColumns (snd (loadCSV_append csv s)) = gridColumns s"
  "gridRows (snd (loadCSV_append csv s)) = gridRows s"
  "gridColumns (snd (loadCSV_fixed csv s)) = gridColumns s"
  "gridRows (snd (loadCSV_fixed csv s)) = gridRows s"
proof -
  from loadLines_frame [of csv s]
  show "gridColumns (snd (loadCSV_append csv s)) = gridColumns s"
    "gridRows (snd (loadCSV_append csv s)) = gridRows s"
    by (auto simp: loadCSV_append_def)
  from loadLines_frame [of csv "clearPolygons s"]
  show "gridColumns (snd (loadCSV_replace csv s)) = gridColumns s"
    "gridRows (snd (loadCSV_replace csv s)) = gridRows s"
    by (auto simp: loadCSV_replace_def clearPolygons_def)
  show "gridColumns (snd (loadCSV_fixed csv s)) = gridColumns s"
    "gridRows (snd (loadCSV_fixed csv s)) = gridRows s"
    by (simp_all add: loadCSV_fixed_effect)
qed

lemma grid_methods_invariant:
  assumes "gridInvariant s"
  shows "gridInvariant (snd (addColumn s))" "gridInvariant (snd (removeColumn s))"
    "gridInvariant (snd (addRow s))" "gridInvariant (snd (removeRow s))"
    "gridInvariant (drawGrid t s)"
  using assms
  by (simp_all add: gridInvariant_def addColumn_def removeColumn_def
      addRow_def removeRow_def updatePolygonPositions_state drawGrid_fields Let_def)

lemma reachable_invariant:
  "reachable s \<Longrightarrow> gridInvariant s"
proof (induction rule: reachable.induct)
  case (start viewSize tileInput)
  show ?case by (simp add: gridInvariant_def initializePaper_def drawGrid_fields)
next
  case (editTileSize s typed)
  then show ?case by (simp add: gridInvariant_def)
next
  case (updateGrid s)
  then show ?case by (simp add: updateGrid_def grid_methods_invariant)
next
  case (wheel s viewToProject event)
  then show ?case by (simp add: gridInvariant_def onMouseWheel_def Let_def)
next
  case (drag s delta)
  then show ?case by (simp add: gridInvariant_def onMouseDrag_def)
qed (simp_all add: grid_methods_invariant, simp_all add: gridInvariant_def load_grid)

lemma removeColumns_reachable:
  "reachable s \<Longrightarrow> reachable (removeColumns n s)"
  by (induction n) (simp_all add: removeColumns_def reachable.removeColumn)

lemma removeRows_reachable:
  "reachable s \<Longrightarrow> reachable (removeRows n s)"
  by (induction n) (simp_all add: removeRows_def reachable.removeRow)

text \<open>
  Claim C4. There is at least one column and one row when the page starts, and
  \<open>addColumn\<close>, \<open>removeColumn\<close>, \<open>addRow\<close>, \<open>removeRow\<close> and \<open>drawGrid\<close> keep it so; hence
  it is so in every state the page can reach. With one column \<open>removeColumn\<close> changes
  nothing of the state and throws nothing, and so does \<open>removeRow\<close> with one row.
\<close>

theorem grid_floor:
  "gridInvariant (initializePaper viewSize tileInput)
   \<and> (gridInvariant s \<longrightarrow>
        gridInvariant (snd (addColumn s)) \<and> gridInvariant (snd (removeColumn s))
        \<and> gridInvariant (snd (addRow s)) \<and> gridInvariant (snd (removeRow s))
        \<and> gridInvariant (drawGrid t s))
   \<and> (reachable s \<longrightarrow> gridInvariant s)
   \<and> (gridColumns s = 1 \<longrightarrow> removeColumn s = (None, s))
   \<and> (gridRows s = 1 \<longrightarrow> removeRow s = (None, s))"
proof -
  have "gridInvariant (initializePaper viewSize tileInput)"
    by (rule reachable_invariant) (rule reachable.start)
  moreover have "gridColumns s = 1 \<longrightarrow> removeColumn s = (None, s)"
    and "gridRows s = 1 \<longrightarrow> removeRow s = (None, s)"
    by (simp_all add: removeColumn_def removeRow_def)
  ultimately show ?thesis
    using grid_methods_invariant [of s] reachable_invariant [of s] by blast
qed

text \<open>
  The page as it starts, after nine calls of \<open>removeColumn\<close> and six of \<open>removeRow\<close>,
  has one column and one row; a tenth and a seventh call leave it as it is.
\<close>

theorem grid_floor_witness:
  "reachable floorState \<and> gridInvariant floorState
   \<and> gridColumns floorState = 1 \<and> gridRows floorState = 1
   \<and> removeColumn floorState = (None, floorState) \<and> removeRow floorState = (None, floorState)
   \<and> gridInvariant (snd (addColumn floorState))
   \<and> gridInvariant (snd (removeColumn floorState))
   \<and> gridInvariant (snd (addRow floorState))
   \<and> gridInvariant (snd (removeRow floorState))
   \<and> gridInvariant (drawGrid (Num 300) floorState)"
proof -
  have g: "gridColumns floorState = 1 \<and> gridRows floorState = 1"
    by (simp add: floorState_grid)
  have "reachable exampleState"
    unfolding exampleState_def by (rule reachable.start)
  then have "reachable (removeColumns 9 exampleState)"
    by (rule removeColumns_reachable)
  then have r: "reachable floorState"
    unfolding floorState_def by (rule removeRows_reachable)
  from grid_floor [of _ _ floorState "Num 300"] g r show ?thesis by simp
qed

end
